theory Spec2Isabelle
  imports Complex_Main
begin

section \<open>Exceptions as values\<close>

text \<open>
  Every \<^verbatim>\<open>raise\<close> of the Python sources is a value of type \<open>error\<close>; a function that
  may raise returns \<open>error + 'a\<close>, with \<open>Inl\<close> for the exception.  The constructors are the
  Python exception classes; the string is a short form of the message, which tells the
  raise sites of one class apart.  Floating-point numbers are idealised as \<open>real\<close>.
\<close>

datatype error =
    NotImplementedError string
  | ValueError string
  | Exception string
  | IndexError
  | AttributeError
  | ZeroDivisionError
  | ValidationError
  | InvalidROIError

text \<open>The errors of the three checks on the metadata that the properties below name.\<close>

definition one_multiscale_error :: error where
  "one_multiscale_error = NotImplementedError ''Only images with one multiscale are supported''"

definition global_transformations_error :: error where
  "global_transformations_error = NotImplementedError
     ''Global CoordinateTransformations at the multiscales level are not currently supported.''"

text \<open>The literal \<^verbatim>\<open>1e-9\<close> of the checks on pixel sizes.\<close>

definition min_pixel_size :: real where
  "min_pixel_size = 1 / 10 ^ 9"

definition pixel_sizes_too_small_error :: error where
  "pixel_sizes_too_small_error = ValueError ''Pixel sizes are too small''"

fun is_NotImplementedError :: "error \<Rightarrow> bool" where
  "is_NotImplementedError (NotImplementedError msg) = True"
| "is_NotImplementedError e = False"

text \<open>\<^verbatim>\<open>xs[i]\<close> for a non-negative index: out of range raises \<^verbatim>\<open>IndexError\<close>.\<close>

definition getitem :: "'a list \<Rightarrow> nat \<Rightarrow> error + 'a" where
  "getitem xs i = (if i < length xs then Inr (xs ! i) else Inl IndexError)"

text \<open>\<^verbatim>\<open>xs.index(a)\<close>: the position of the first occurrence, \<open>None\<close> where Python raises
  \<^verbatim>\<open>ValueError\<close>.\<close>

fun list_index :: "'a list \<Rightarrow> 'a \<Rightarrow> nat option" where
  "list_index [] a = None"
| "list_index (x # xs) a = (if x = a then Some 0 else map_option Suc (list_index xs a))"

text \<open>Python's \<^verbatim>\<open>round\<close> of a float: to the nearest integer, a tie to the even one.\<close>

definition py_round :: "real \<Rightarrow> int" where
  "py_round x =
     (let f = floor x; d = x - of_int f
      in if d < 1 / 2 then f else if 1 / 2 < d then f + 1 else if even f then f else f + 1)"

section \<open>The NGFF models of \<^verbatim>\<open>lib_ngff.py\<close>\<close>

text \<open>
  \<^verbatim>\<open>ScaleCoordinateTransformation\<close> and \<^verbatim>\<open>TranslationCoordinateTransformation\<close>, the two members
  of the \<^verbatim>\<open>Union\<close> in \<^verbatim>\<open>Dataset.CoordinateTransformations\<close>; \<open>ttype\<close> is the field \<^verbatim>\<open>type\<close>.
\<close>

datatype transformation = Scale "real list" | Translation "real list"

fun ttype :: "transformation \<Rightarrow> string" where
  "ttype (Scale s) = ''scale''"
| "ttype (Translation v) = ''translation''"

record Axis =
  ax_name :: string
  ax_type :: "string option"

record Dataset =
  path :: string
  CoordinateTransformations :: "transformation list"

record Multiscale =
  ms_name :: "string option"
  ms_datasets :: "Dataset list"
  ms_version :: "string option"
  ms_axes :: "Axis list"
  ms_CoordinateTransformations :: "transformation list option"

record NgffImageMeta =
  multiscales :: "Multiscale list"

text \<open>\<^verbatim>\<open>Dataset.scale_transformation\<close>: the unique scale transformation, or fail.\<close>

definition scale_transformation :: "'a Dataset_scheme \<Rightarrow> error + transformation" where
  "scale_transformation ds =
     (let transformations = filter (\<lambda>t. ttype t = ''scale'') (CoordinateTransformations ds)
      in if length transformations = 0
           then Inl (ValueError ''Missing scale transformation in dataset.'')
         else if length transformations > 1
           then Inl (ValueError ''More than one scale transformation in dataset.'')
         else Inr (transformations ! 0))"

text \<open>\<^verbatim>\<open>NgffImageMeta.multiscale\<close>, \<^verbatim>\<open>datasets\<close>, \<^verbatim>\<open>num_levels\<close> and \<^verbatim>\<open>axes\<close>.\<close>

definition multiscale :: "NgffImageMeta \<Rightarrow> error + Multiscale" where
  "multiscale m =
     (if length (multiscales m) > 1
        then Inl one_multiscale_error
      else getitem (multiscales m) 0)"

definition datasets :: "NgffImageMeta \<Rightarrow> error + Dataset list" where
  "datasets m = (case multiscale m of Inl e \<Rightarrow> Inl e | Inr ms \<Rightarrow> Inr (ms_datasets ms))"

definition num_levels :: "NgffImageMeta \<Rightarrow> error + nat" where
  "num_levels m = (case datasets m of Inl e \<Rightarrow> Inl e | Inr ds \<Rightarrow> Inr (length ds))"

definition axes :: "NgffImageMeta \<Rightarrow> error + string list" where
  "axes m = (case multiscale m of Inl e \<Rightarrow> Inl e | Inr ms \<Rightarrow> Inr (map ax_name (ms_axes ms)))"

text \<open>
  The body of the loop of \<^verbatim>\<open>NgffImageMeta.pixel_sizes_zyx\<close> for one level: the scale
  components at the positions of the x, y and z axes (z defaults to 1.0), then the check
  against \<^verbatim>\<open>1e-9\<close>.
\<close>

definition level_pixel_sizes ::
  "nat \<Rightarrow> nat \<Rightarrow> nat option \<Rightarrow> Dataset \<Rightarrow> error + (real \<times> real \<times> real)" where
  "level_pixel_sizes x_index y_index z_index ds =
     (case scale_transformation ds of Inl e \<Rightarrow> Inl e | Inr t \<Rightarrow>
      (case t of Translation v \<Rightarrow> Inl AttributeError | Scale scale \<Rightarrow>
       (case getitem scale x_index of Inl e \<Rightarrow> Inl e | Inr pixel_size_x \<Rightarrow>
        (case getitem scale y_index of Inl e \<Rightarrow> Inl e | Inr pixel_size_y \<Rightarrow>
         (case (case z_index of Some zi \<Rightarrow> getitem scale zi | None \<Rightarrow> Inr 1) of
            Inl e \<Rightarrow> Inl e
          | Inr pixel_size_z \<Rightarrow>
             if min pixel_size_z (min pixel_size_y pixel_size_x) < min_pixel_size
               then Inl pixel_sizes_too_small_error
             else Inr (pixel_size_z, pixel_size_y, pixel_size_x))))))"

fun pixel_sizes_loop ::
  "nat \<Rightarrow> nat \<Rightarrow> nat option \<Rightarrow> Dataset list \<Rightarrow> error + (real \<times> real \<times> real) list" where
  "pixel_sizes_loop x_index y_index z_index [] = Inr []"
| "pixel_sizes_loop x_index y_index z_index (ds # rest) =
     (case level_pixel_sizes x_index y_index z_index ds of Inl e \<Rightarrow> Inl e | Inr p \<Rightarrow>
      (case pixel_sizes_loop x_index y_index z_index rest of Inl e \<Rightarrow> Inl e
       | Inr ps \<Rightarrow> Inr (p # ps)))"

definition pixel_sizes_zyx :: "NgffImageMeta \<Rightarrow> error + (real \<times> real \<times> real) list" where
  "pixel_sizes_zyx m =
     (case axes m of Inl e \<Rightarrow> Inl e | Inr axs \<Rightarrow>
      (case list_index axs ''x'' of None \<Rightarrow> Inl (ValueError ''x is not in list'') | Some x_index \<Rightarrow>
       (case list_index axs ''y'' of None \<Rightarrow> Inl (ValueError ''y is not in list'') | Some y_index \<Rightarrow>
        (case datasets m of Inl e \<Rightarrow> Inl e | Inr ds \<Rightarrow>
           pixel_sizes_loop x_index y_index (list_index axs ''z'') ds))))"

definition get_pixel_sizes_zyx :: "NgffImageMeta \<Rightarrow> nat \<Rightarrow> error + (real \<times> real \<times> real)" where
  "get_pixel_sizes_zyx m level =
     (case pixel_sizes_zyx m of Inl e \<Rightarrow> Inl e | Inr ps \<Rightarrow> getitem ps level)"

text \<open>
  \<^verbatim>\<open>NgffImageMeta.coarsening_xy\<close>.  The loop runs over \<^verbatim>\<open>range(1, num_levels)\<close> with the
  variable \<^verbatim>\<open>current_ratio\<close>, which starts as \<^verbatim>\<open>None\<close>; every iteration reads the property
  \<^verbatim>\<open>pixel_sizes_zyx\<close> again, which is a function of the metadata alone.
\<close>

fun coarsening_loop ::
  "NgffImageMeta \<Rightarrow> nat list \<Rightarrow> int option \<Rightarrow> error + int option" where
  "coarsening_loop m [] current_ratio = Inr current_ratio"
| "coarsening_loop m (ind # inds) current_ratio =
     (case pixel_sizes_zyx m of Inl e \<Rightarrow> Inl e | Inr ps \<Rightarrow>
        if \<not> ind < length ps then Inl IndexError
        else if snd (snd (ps ! (ind - 1))) = 0 \<or> fst (snd (ps ! (ind - 1))) = 0
          then Inl ZeroDivisionError
        else
          let ratio_x = py_round (snd (snd (ps ! ind)) / snd (snd (ps ! (ind - 1))));
              ratio_y = py_round (fst (snd (ps ! ind)) / fst (snd (ps ! (ind - 1))))
          in if ratio_x \<noteq> ratio_y
               then Inl (NotImplementedError
                 ''Inhomogeneous coarsening in X/Y directions is not supported.'')
             else (case current_ratio of
                     None \<Rightarrow> coarsening_loop m inds (Some ratio_x)
                   | Some r \<Rightarrow>
                       if r \<noteq> ratio_x
                         then Inl (NotImplementedError
                           ''Inhomogeneous coarsening across levels is not supported.'')
                       else coarsening_loop m inds current_ratio))"

definition coarsening_xy :: "NgffImageMeta \<Rightarrow> error + int option" where
  "coarsening_xy m =
     (case num_levels m of Inl e \<Rightarrow> Inl e | Inr n \<Rightarrow> coarsening_loop m [1 ..< n] None)"

subsection \<open>Construction: the Pydantic field constraints and the validator\<close>

text \<open>
  \<^verbatim>\<open>NgffImageMeta(**zarr_attrs)\<close> gets the attributes of the zarr group, dictionaries as
  read from JSON.  A model reads the keys that are spelled as its fields and ignores every
  other key.  The field of \<^verbatim>\<open>Dataset\<close> and of \<^verbatim>\<open>Multiscale\<close> for the transformations is
  spelled \<^verbatim>\<open>CoordinateTransformations\<close>, with a capital C and no alias; the key of the NGFF
  specification, which \<^verbatim>\<open>lib_zattrs_utils.py\<close> reads and writes, is
  \<^verbatim>\<open>coordinateTransformations\<close>.  The records below are the dictionaries: they hold both keys,
  each with \<open>None\<close> when the key is absent, and the extension of a record scheme stands
  for the keys that are not named here.  The values are taken to have the JSON type of their
  field, and the keys \<^verbatim>\<open>path\<close>, \<^verbatim>\<open>datasets\<close>, \<^verbatim>\<open>axes\<close> and \<^verbatim>\<open>multiscales\<close> to be present; the
  optional key \<^verbatim>\<open>omero\<close> is left out.
\<close>

record DatasetAttrs =
  key_path :: string
  key_CoordinateTransformations :: "transformation list option"
  key_coordinateTransformations :: "transformation list option"

record ('x, 'd) MultiscaleAttrs =
  key_name :: "string option"
  key_datasets :: "'d DatasetAttrs_scheme list"
  key_version :: "string option"
  key_axes :: "'x Axis_scheme list"
  key_global_CoordinateTransformations :: "transformation list option"
  key_global_coordinateTransformations :: "transformation list option"

record ('x, 'd, 'm) ZarrAttrs =
  key_multiscales :: "('x, 'd, 'm) MultiscaleAttrs_scheme list"

text \<open>
  A violated \<^verbatim>\<open>Field\<close> constraint (\<^verbatim>\<open>min_items\<close>, \<^verbatim>\<open>max_items\<close>, \<^verbatim>\<open>unique_items\<close>) or a
  missing required field is collected into a \<^verbatim>\<open>ValidationError\<close>; the constraints of a list
  are checked on the list as given, before its items are validated, so \<^verbatim>\<open>unique_items\<close>
  compares the dictionaries.  A validator runs only on a value that passed the validation
  of its field, and the \<^verbatim>\<open>NotImplementedError\<close> it raises is not collected but leaves the
  constructor at once.
\<close>

definition transformation_valid :: "transformation \<Rightarrow> bool" where
  "transformation_valid t = (case t of Scale s \<Rightarrow> 2 \<le> length s | Translation v \<Rightarrow> 2 \<le> length v)"

text \<open>The model \<^verbatim>\<open>Dataset\<close> built from a dictionary, \<open>None\<close> for a validation error: the
  field \<^verbatim>\<open>CoordinateTransformations\<close> is required and has at least one item.\<close>

definition Dataset_parse :: "'d DatasetAttrs_scheme \<Rightarrow> Dataset option" where
  "Dataset_parse d =
     (case key_CoordinateTransformations d of
        None \<Rightarrow> None
      | Some ts \<Rightarrow>
          if 1 \<le> length ts \<and> list_all transformation_valid ts
            then Some \<lparr>path = key_path d, CoordinateTransformations = ts\<rparr>
          else None)"

text \<open>\<^verbatim>\<open>Multiscale._no_global_CoordinateTransformations\<close>; without a \<^verbatim>\<open>return\<close> the field
  becomes \<^verbatim>\<open>None\<close>.\<close>

definition no_global_CoordinateTransformations ::
  "transformation list option \<Rightarrow> error + transformation list option" where
  "no_global_CoordinateTransformations v =
     (if v \<noteq> None
        then Inl global_transformations_error
      else Inr None)"

text \<open>The model \<^verbatim>\<open>Multiscale\<close> built from a dictionary: the validator sees the value under
  the key \<^verbatim>\<open>CoordinateTransformations\<close>; the key \<^verbatim>\<open>coordinateTransformations\<close> is not a field
  and is ignored.\<close>

definition Multiscale_validate :: "('x, 'd, 'm) MultiscaleAttrs_scheme \<Rightarrow> error + Multiscale" where
  "Multiscale_validate ms =
     (if (case key_global_CoordinateTransformations ms of None \<Rightarrow> False
          | Some ts \<Rightarrow> \<not> list_all transformation_valid ts)
        then Inl ValidationError
      else (case no_global_CoordinateTransformations (key_global_CoordinateTransformations ms) of
              Inl e \<Rightarrow> Inl e
            | Inr v \<Rightarrow>
               (case those (map Dataset_parse (key_datasets ms)) of
                  None \<Rightarrow> Inl ValidationError
                | Some dss \<Rightarrow>
                    if 1 \<le> length (key_datasets ms) \<and>
                       2 \<le> length (key_axes ms) \<and> length (key_axes ms) \<le> 5 \<and>
                       distinct (key_axes ms)
                      then Inr \<lparr>ms_name = key_name ms, ms_datasets = dss,
                                ms_version = key_version ms,
                                ms_axes = map Axis.truncate (key_axes ms),
                                ms_CoordinateTransformations = v\<rparr>
                    else Inl ValidationError)))"

fun validate_multiscales ::
  "('x, 'd, 'm) MultiscaleAttrs_scheme list \<Rightarrow> error + Multiscale list" where
  "validate_multiscales [] = Inr []"
| "validate_multiscales (ms # rest) =
     (case Multiscale_validate ms of
        Inl e \<Rightarrow>
          if is_NotImplementedError e then Inl e
          else (case validate_multiscales rest of
                  Inl e' \<Rightarrow> if is_NotImplementedError e' then Inl e' else Inl ValidationError
                | Inr rest' \<Rightarrow> Inl ValidationError)
      | Inr ms' \<Rightarrow>
          (case validate_multiscales rest of Inl e' \<Rightarrow> Inl e' | Inr rest' \<Rightarrow> Inr (ms' # rest')))"

text \<open>\<^verbatim>\<open>load_NgffImageMeta\<close>, given the attributes of the zarr group: the exception of the
  constructor is logged and raised again.\<close>

definition load_NgffImageMeta :: "('x, 'd, 'm, 'z) ZarrAttrs_scheme \<Rightarrow> error + NgffImageMeta" where
  "load_NgffImageMeta zarr_attrs =
     (if \<not> (1 \<le> length (key_multiscales zarr_attrs) \<and> distinct (key_multiscales zarr_attrs))
        then Inl ValidationError
      else (case validate_multiscales (key_multiscales zarr_attrs) of
              Inl e \<Rightarrow> Inl e
            | Inr mss \<Rightarrow> Inr \<lparr>multiscales = mss\<rparr>))"

text \<open>A task loads the metadata and then reads a property of the object, as
  \<^verbatim>\<open>napari_workflows_wrapper\<close> does (lines 199 to 204).\<close>

definition load_and ::
  "(NgffImageMeta \<Rightarrow> error + 'a) \<Rightarrow> ('x, 'd, 'm, 'z) ZarrAttrs_scheme \<Rightarrow> error + 'a" where
  "load_and operation zarr_attrs =
     (case load_NgffImageMeta zarr_attrs of Inl e \<Rightarrow> Inl e | Inr m \<Rightarrow> operation m)"

section \<open>\<^verbatim>\<open>lib_zattrs_utils.py\<close>\<close>

text \<open>
  \<^verbatim>\<open>extract_zyx_pixel_sizes\<close> works on the JSON of a \<^verbatim>\<open>.zattrs\<close> file and reads the keys
  of the NGFF specification.  The JSON is given in the shape of the record
  \<open>NgffImageMeta\<close>, whose fields stand here for those keys: \<^verbatim>\<open>zattrs["multiscales"]\<close> is
  \<open>multiscales\<close>, the field \<open>CoordinateTransformations\<close> of a dataset is the value of its key
  \<^verbatim>\<open>"coordinateTransformations"\<close>, and the key \<^verbatim>\<open>"coordinateTransformations"\<close> of a
  multiscale is present when \<open>ms_CoordinateTransformations\<close> is not \<open>None\<close>.  \<open>first_scale\<close>
  is the loop over the transformations of the chosen level: it returns at the first one of
  type scale.
\<close>

fun first_scale :: "transformation list \<Rightarrow> error + real list" where
  "first_scale [] = Inl (Exception ''ERROR: no scale transformation found'')"
| "first_scale (t # ts) =
     (case t of
        Scale pixel_sizes \<Rightarrow>
          if pixel_sizes = [] then Inl (ValueError ''min() arg is an empty sequence'')
          else if Min (set pixel_sizes) < min_pixel_size then Inl (Exception ''ERROR: pixel_sizes are'')
          else Inr pixel_sizes
      | Translation v \<Rightarrow> first_scale ts)"

definition extract_zyx_pixel_sizes :: "NgffImageMeta \<Rightarrow> nat \<Rightarrow> error + real list" where
  "extract_zyx_pixel_sizes zattrs level =
     (if length (multiscales zattrs) > 1 then Inl (Exception ''ERROR: There are multiscales'')
      else (case getitem (multiscales zattrs) 0 of Inl e \<Rightarrow> Inl e | Inr ms0 \<Rightarrow>
        if ms_CoordinateTransformations ms0 \<noteq> None
          then Inl (NotImplementedError
            ''global coordinateTransformations at the multiscales level are not currently supported'')
        else (case getitem (ms_datasets ms0) level of Inl e \<Rightarrow> Inl e
              | Inr ds \<Rightarrow> first_scale (CoordinateTransformations ds))))"

text \<open>
  \<^verbatim>\<open>rescale_datasets\<close>.  A dataset is a dictionary: the record scheme stands for the key
  \<^verbatim>\<open>path\<close> and every other key that is not \<^verbatim>\<open>coordinateTransformations\<close>, whose value is
  the field \<open>CoordinateTransformations\<close> of the record.  The new scale is
  built from the entries 0, 1 and 2 of the old one, each of which raises \<^verbatim>\<open>IndexError\<close>
  when the list is too short; the reference level is a pyramid level, a natural number.
  The parameter \<^verbatim>\<open>coarsening_xy\<close> is written \<open>coarsening\<close> here and below.
\<close>

definition rescale_transformation :: "int \<Rightarrow> nat \<Rightarrow> transformation \<Rightarrow> error + transformation" where
  "rescale_transformation coarsening reference_level t =
     (case t of
        Scale s \<Rightarrow>
          if length s < 3 then Inl IndexError
          else Inr (Scale [s ! 0,
                           s ! 1 * of_int (coarsening ^ reference_level),
                           s ! 2 * of_int (coarsening ^ reference_level)])
      | Translation v \<Rightarrow> Inr t)"

fun rescale_transformations ::
  "int \<Rightarrow> nat \<Rightarrow> transformation list \<Rightarrow> error + transformation list" where
  "rescale_transformations coarsening reference_level [] = Inr []"
| "rescale_transformations coarsening reference_level (t # ts) =
     (case rescale_transformation coarsening reference_level t of Inl e \<Rightarrow> Inl e | Inr new_t \<Rightarrow>
      (case rescale_transformations coarsening reference_level ts of Inl e \<Rightarrow> Inl e
       | Inr new_ts \<Rightarrow> Inr (new_t # new_ts)))"

fun rescale_datasets ::
  "'a Dataset_scheme list \<Rightarrow> int \<Rightarrow> nat \<Rightarrow> error + 'a Dataset_scheme list" where
  "rescale_datasets [] coarsening reference_level = Inr []"
| "rescale_datasets (ds # rest) coarsening reference_level =
     (case rescale_transformations coarsening reference_level (CoordinateTransformations ds) of
        Inl e \<Rightarrow> Inl e
      | Inr new_transformations \<Rightarrow>
         (case rescale_datasets rest coarsening reference_level of Inl e \<Rightarrow> Inl e
          | Inr new_datasets \<Rightarrow>
              Inr (ds\<lparr>CoordinateTransformations := new_transformations\<rparr> # new_datasets)))"

section \<open>ROI indices\<close>

record ROIRow =
  x_micrometer :: real
  y_micrometer :: real
  z_micrometer :: real
  len_x_micrometer :: real
  len_y_micrometer :: real
  len_z_micrometer :: real

record ROIIndices =
  start_z :: int
  end_z :: int
  start_y :: int
  end_y :: int
  start_x :: int
  end_x :: int

text \<open>
  Modelled from the spec: \<^verbatim>\<open>convert_ROI_table_to_indices\<close> of the module
  \<^verbatim>\<open>fractal_tasks_core.roi\<close>, which the sources only import and call.  The spec's steps:
  subtract the origin; \<open>start = round(local_origin / pixel_size)\<close> and
  \<open>end = round((local_origin + len) / pixel_size)\<close> at full resolution; divide start and end
  by \<open>coarsening ** level\<close> on Y and X only, never on Z.  The spec leaves the rounding of
  that division open between floor and round, so it is the parameter \<open>rounding\<close>.  A
  division by zero is Python's \<^verbatim>\<open>ZeroDivisionError\<close>.
\<close>

datatype rounding = Floor | Round

definition round_with :: "rounding \<Rightarrow> real \<Rightarrow> int" where
  "round_with rule q = (case rule of Floor \<Rightarrow> floor q | Round \<Rightarrow> py_round q)"

definition convert_ROI_row ::
  "rounding \<Rightarrow> nat \<Rightarrow> int \<Rightarrow> real \<times> real \<times> real \<Rightarrow> real \<times> real \<times> real \<Rightarrow> ROIRow \<Rightarrow> error + ROIIndices" where
  "convert_ROI_row rule level coarsening full_res_pxl_sizes_zyx origin_xyz row =
     (case full_res_pxl_sizes_zyx of (pxl_size_z, pxl_size_y, pxl_size_x) \<Rightarrow>
      case origin_xyz of (origin_x, origin_y, origin_z) \<Rightarrow>
        if pxl_size_z = 0 \<or> pxl_size_y = 0 \<or> pxl_size_x = 0 \<or> coarsening ^ level = 0
          then Inl ZeroDivisionError
        else
          let x = x_micrometer row - origin_x;
              y = y_micrometer row - origin_y;
              z = z_micrometer row - origin_z;
              prefactor = real_of_int (coarsening ^ level)
          in Inr \<lparr>start_z = py_round (z / pxl_size_z),
                  end_z = py_round ((z + len_z_micrometer row) / pxl_size_z),
                  start_y = round_with rule (of_int (py_round (y / pxl_size_y)) / prefactor),
                  end_y = round_with rule
                    (of_int (py_round ((y + len_y_micrometer row) / pxl_size_y)) / prefactor),
                  start_x = round_with rule (of_int (py_round (x / pxl_size_x)) / prefactor),
                  end_x = round_with rule
                    (of_int (py_round ((x + len_x_micrometer row) / pxl_size_x)) / prefactor)\<rparr>)"

fun convert_ROI_table_to_indices ::
  "rounding \<Rightarrow> ROIRow list \<Rightarrow> nat \<Rightarrow> int \<Rightarrow> real \<times> real \<times> real \<Rightarrow> real \<times> real \<times> real
     \<Rightarrow> error + ROIIndices list" where
  "convert_ROI_table_to_indices rule [] level coarsening pxl origin = Inr []"
| "convert_ROI_table_to_indices rule (row # rows) level coarsening pxl origin =
     (case convert_ROI_row rule level coarsening pxl origin row of Inl e \<Rightarrow> Inl e | Inr indices \<Rightarrow>
      (case convert_ROI_table_to_indices rule rows level coarsening pxl origin of Inl e \<Rightarrow> Inl e
       | Inr list_indices \<Rightarrow> Inr (indices # list_indices)))"

text \<open>
  Modelled from the spec: \<^verbatim>\<open>check_valid_ROI_indices\<close> of the module
  \<^verbatim>\<open>fractal_tasks_core.roi\<close>, which the sources only import and call.  The spec: a separate
  validation pass that raises \<^verbatim>\<open>InvalidROIError\<close> when a tuple has \<open>end <= start\<close> on some
  axis, and neither clamps nor changes the indices.  The second argument is the name of the
  ROI table, as at the call sites.
\<close>

definition valid_ROI_indices :: "ROIIndices \<Rightarrow> bool" where
  "valid_ROI_indices i = (start_z i < end_z i \<and> start_y i < end_y i \<and> start_x i < end_x i)"

definition check_valid_ROI_indices :: "ROIIndices list \<Rightarrow> string \<Rightarrow> error + unit" where
  "check_valid_ROI_indices list_indices ROI_table_name =
     (if list_all valid_ROI_indices list_indices then Inr () else Inl InvalidROIError)"

text \<open>
  The order of the calls in \<^verbatim>\<open>napari_workflows_wrapper\<close>: the indices are computed and
  validated (lines 207 to 213, and again at lines 376 to 382 where they are rebuilt from a
  label image) before the loop over the ROIs (lines 499 to 602), which for
  every ROI loads its region from each input array and writes its region to each label
  output.  The events are the region reads and writes, in order; the workflows and the
  arrays themselves are left out.
\<close>

datatype region_event = LoadRegion ROIIndices | WriteRegion ROIIndices

definition ROI_loop :: "nat \<Rightarrow> nat \<Rightarrow> ROIIndices list \<Rightarrow> region_event list" where
  "ROI_loop n_inputs n_label_outputs list_indices =
     concat (map (\<lambda>indices. replicate n_inputs (LoadRegion indices) @
                             replicate n_label_outputs (WriteRegion indices)) list_indices)"

definition wrapper_regions ::
  "nat \<Rightarrow> nat \<Rightarrow> string \<Rightarrow> ROIIndices list \<Rightarrow> (error + unit) \<times> region_event list" where
  "wrapper_regions n_inputs n_label_outputs input_ROI_table list_indices =
     (case check_valid_ROI_indices list_indices input_ROI_table of
        Inl e \<Rightarrow> (Inl e, [])
      | Inr u \<Rightarrow> (Inr (), ROI_loop n_inputs n_label_outputs list_indices))"

section \<open>Auxiliary predicates and example metadata\<close>

text \<open>The condition of one pass of the loop of \<open>coarsening_xy\<close> with ratio \<open>r\<close>.\<close>

definition homogeneous :: "(real \<times> real \<times> real) list \<Rightarrow> int \<Rightarrow> nat \<Rightarrow> bool" where
  "homogeneous ps r ind =
     (py_round (snd (snd (ps ! ind)) / snd (snd (ps ! (ind - 1)))) =
        py_round (fst (snd (ps ! ind)) / fst (snd (ps ! (ind - 1)))) \<and>
      py_round (snd (snd (ps ! ind)) / snd (snd (ps ! (ind - 1)))) = r)"

text \<open>A CZYX image with three levels and coarsening factor 2, and one with a single level.\<close>

definition example_axes :: "Axis list" where
  "example_axes =
     [\<lparr>ax_name = ''c'', ax_type = Some ''channel''\<rparr>, \<lparr>ax_name = ''z'', ax_type = Some ''space''\<rparr>,
      \<lparr>ax_name = ''y'', ax_type = Some ''space''\<rparr>, \<lparr>ax_name = ''x'', ax_type = Some ''space''\<rparr>]"

definition example_multiscale :: Multiscale where
  "example_multiscale =
     \<lparr>ms_name = None,
      ms_datasets =
        [\<lparr>path = ''0'', CoordinateTransformations = [Scale [1, 1, 1625 / 10000, 1625 / 10000]]\<rparr>,
         \<lparr>path = ''1'', CoordinateTransformations = [Scale [1, 1, 325 / 1000, 325 / 1000]]\<rparr>,
         \<lparr>path = ''2'', CoordinateTransformations = [Scale [1, 1, 65 / 100, 65 / 100]]\<rparr>],
      ms_version = None, ms_axes = example_axes, ms_CoordinateTransformations = None\<rparr>"

definition example_pyramid :: NgffImageMeta where
  "example_pyramid = \<lparr>multiscales = [example_multiscale]\<rparr>"

definition single_level :: NgffImageMeta where
  "single_level = \<lparr>multiscales =
     [\<lparr>ms_name = None,
       ms_datasets =
         [\<lparr>path = ''0'', CoordinateTransformations = [Scale [1, 1, 1625 / 10000, 1625 / 10000]]\<rparr>],
       ms_version = None, ms_axes = example_axes, ms_CoordinateTransformations = None\<rparr>]\<rparr>"

text \<open>
  Two levels whose X pixel size grows by the factor 3 and whose Y pixel size by the factor
  2; and three levels whose pixel sizes grow by the factor 2 and then by the factor 3.
\<close>

definition anisotropic_pyramid :: NgffImageMeta where
  "anisotropic_pyramid = \<lparr>multiscales =
     [\<lparr>ms_name = None,
       ms_datasets =
         [\<lparr>path = ''0'', CoordinateTransformations = [Scale [1, 1, 1625 / 10000, 1625 / 10000]]\<rparr>,
          \<lparr>path = ''1'', CoordinateTransformations = [Scale [1, 1, 325 / 1000, 4875 / 10000]]\<rparr>],
       ms_version = None, ms_axes = example_axes, ms_CoordinateTransformations = None\<rparr>]\<rparr>"

definition uneven_pyramid :: NgffImageMeta where
  "uneven_pyramid = \<lparr>multiscales =
     [\<lparr>ms_name = None,
       ms_datasets =
         [\<lparr>path = ''0'', CoordinateTransformations = [Scale [1, 1, 1625 / 10000, 1625 / 10000]]\<rparr>,
          \<lparr>path = ''1'', CoordinateTransformations = [Scale [1, 1, 325 / 1000, 325 / 1000]]\<rparr>,
          \<lparr>path = ''2'', CoordinateTransformations = [Scale [1, 1, 975 / 1000, 975 / 1000]]\<rparr>],
       ms_version = None, ms_axes = example_axes, ms_CoordinateTransformations = None\<rparr>]\<rparr>"

text \<open>An object with two multiscales; and a \<^verbatim>\<open>.zattrs\<close> file, in the shape that
  \<open>extract_zyx_pixel_sizes\<close> reads, whose multiscale has the key
  \<^verbatim>\<open>coordinateTransformations\<close>.\<close>

definition two_multiscales :: NgffImageMeta where
  "two_multiscales =
     \<lparr>multiscales = [example_multiscale, example_multiscale\<lparr>ms_name := Some ''second''\<rparr>]\<rparr>"

definition global_transformation :: NgffImageMeta where
  "global_transformation =
     \<lparr>multiscales = [example_multiscale\<lparr>ms_CoordinateTransformations := Some [Scale [1, 1, 1, 1]]\<rparr>]\<rparr>"

text \<open>
  Attributes of a zarr group, as dictionaries.  In \<open>example_attrs\<close> the three datasets carry
  their transformations under the key \<^verbatim>\<open>CoordinateTransformations\<close>, the one that the model
  \<^verbatim>\<open>Dataset\<close> reads.  \<open>global_key_attrs\<close> has in addition, at the level of the multiscale, the
  key \<^verbatim>\<open>coordinateTransformations\<close> of the NGFF specification; \<open>global_field_attrs\<close> has
  there the key \<^verbatim>\<open>CoordinateTransformations\<close> instead.  \<open>two_multiscales_attrs\<close> has two
  multiscales, and \<open>ngff_spelled_attrs\<close> spells the key of every dataset as the NGFF
  specification does.
\<close>

definition example_datasets_attrs :: "DatasetAttrs list" where
  "example_datasets_attrs =
     [\<lparr>key_path = ''0'',
       key_CoordinateTransformations = Some [Scale [1, 1, 1625 / 10000, 1625 / 10000]],
       key_coordinateTransformations = None\<rparr>,
      \<lparr>key_path = ''1'',
       key_CoordinateTransformations = Some [Scale [1, 1, 325 / 1000, 325 / 1000]],
       key_coordinateTransformations = None\<rparr>,
      \<lparr>key_path = ''2'',
       key_CoordinateTransformations = Some [Scale [1, 1, 65 / 100, 65 / 100]],
       key_coordinateTransformations = None\<rparr>]"

definition example_multiscale_attrs :: "(unit, unit) MultiscaleAttrs" where
  "example_multiscale_attrs =
     \<lparr>key_name = None, key_datasets = example_datasets_attrs, key_version = None,
      key_axes = example_axes,
      key_global_CoordinateTransformations = None,
      key_global_coordinateTransformations = None\<rparr>"

definition example_attrs :: "(unit, unit, unit) ZarrAttrs" where
  "example_attrs = \<lparr>key_multiscales = [example_multiscale_attrs]\<rparr>"

definition global_key_attrs :: "(unit, unit, unit) ZarrAttrs" where
  "global_key_attrs = \<lparr>key_multiscales =
     [example_multiscale_attrs\<lparr>key_global_coordinateTransformations := Some [Scale [1, 1, 1, 1]]\<rparr>]\<rparr>"

definition global_field_attrs :: "(unit, unit, unit) ZarrAttrs" where
  "global_field_attrs = \<lparr>key_multiscales =
     [example_multiscale_attrs\<lparr>key_global_CoordinateTransformations := Some [Scale [1, 1, 1, 1]]\<rparr>]\<rparr>"

definition two_multiscales_attrs :: "(unit, unit, unit) ZarrAttrs" where
  "two_multiscales_attrs = \<lparr>key_multiscales =
     [example_multiscale_attrs, example_multiscale_attrs\<lparr>key_name := Some ''second''\<rparr>]\<rparr>"

definition ngff_spelled_attrs :: "(unit, unit, unit) ZarrAttrs" where
  "ngff_spelled_attrs = \<lparr>key_multiscales =
     [example_multiscale_attrs\<lparr>key_datasets :=
        [\<lparr>key_path = ''0'',
          key_CoordinateTransformations = None,
          key_coordinateTransformations = Some [Scale [1, 1, 1625 / 10000, 1625 / 10000]]\<rparr>]\<rparr>]\<rparr>"

text \<open>A dataset with two scale transformations, in a \<^verbatim>\<open>.zattrs\<close> file of a ZYX image.\<close>

definition two_scales_dataset :: Dataset where
  "two_scales_dataset = \<lparr>path = ''0'', CoordinateTransformations =
     [Scale [1, 1625 / 10000, 1625 / 10000], Scale [2, 2, 2]]\<rparr>"

definition two_scales_zattrs :: NgffImageMeta where
  "two_scales_zattrs = \<lparr>multiscales =
     [\<lparr>ms_name = None, ms_datasets = [two_scales_dataset], ms_version = None,
       ms_axes = [\<lparr>ax_name = ''z'', ax_type = Some ''space''\<rparr>, \<lparr>ax_name = ''y'', ax_type = Some ''space''\<rparr>,
                  \<lparr>ax_name = ''x'', ax_type = Some ''space''\<rparr>],
       ms_CoordinateTransformations = None\<rparr>]\<rparr>"

text \<open>CZYX metadata whose channel scale is 0, and whose Y pixel size is \<^verbatim>\<open>1e-10\<close>.\<close>

definition channel_scale_zero :: NgffImageMeta where
  "channel_scale_zero = \<lparr>multiscales =
     [\<lparr>ms_name = None,
       ms_datasets = [\<lparr>path = ''0'', CoordinateTransformations = [Scale [0, 1, 1625 / 10000, 1625 / 10000]]\<rparr>],
       ms_version = None,
       ms_axes = [\<lparr>ax_name = ''c'', ax_type = Some ''channel''\<rparr>, \<lparr>ax_name = ''z'', ax_type = Some ''space''\<rparr>,
                  \<lparr>ax_name = ''y'', ax_type = Some ''space''\<rparr>, \<lparr>ax_name = ''x'', ax_type = Some ''space''\<rparr>],
       ms_CoordinateTransformations = None\<rparr>]\<rparr>"

definition tiny_pixels :: NgffImageMeta where
  "tiny_pixels = \<lparr>multiscales =
     [\<lparr>ms_name = None,
       ms_datasets = [\<lparr>path = ''0'', CoordinateTransformations = [Scale [1, 1, 1 / 10 ^ 10, 1625 / 10000]]\<rparr>],
       ms_version = None,
       ms_axes = example_axes,
       ms_CoordinateTransformations = None\<rparr>]\<rparr>"

text \<open>A level-0 dataset of a CZYX image with a scale of four components, and one with a
  scale of three components (Z, Y, X) and a translation.\<close>

definition czyx_level0 :: Dataset where
  "czyx_level0 = \<lparr>path = ''0'', CoordinateTransformations = [Scale [1, 1, 1625 / 10000, 1625 / 10000]]\<rparr>"

definition zyx_level0 :: Dataset where
  "zyx_level0 = \<lparr>path = ''0'', CoordinateTransformations =
     [Scale [1, 1625 / 10000, 1625 / 10000], Translation [0, 5, 5]]\<rparr>"

text \<open>
  The rescaling in the words of the spec, for a scale \<open>[z, y, x]\<close>: Y and X are multiplied
  by \<open>coarsening_xy ** reference_level\<close>, Z is untouched, anything else passes unchanged;
  \<open>zyx_scales\<close> says that every scale of a dataset has exactly these three components.
\<close>

fun rescaled_zyx :: "int \<Rightarrow> nat \<Rightarrow> transformation \<Rightarrow> transformation" where
  "rescaled_zyx c L (Scale [z, y, x]) = Scale [z, y * of_int (c ^ L), x * of_int (c ^ L)]"
| "rescaled_zyx c L t = t"

definition zyx_scales :: "'a Dataset_scheme \<Rightarrow> bool" where
  "zyx_scales ds =
     list_all (\<lambda>t. case t of Scale s \<Rightarrow> length s = 3 | Translation v \<Rightarrow> True)
       (CoordinateTransformations ds)"



text \<open>
  What "approximately \<open>1 / coarsening_xy\<close> of the extent" means for the indices of one ROI
  at two adjacent levels: the Z extents are equal, and on Y and X the extent of the coarser
  level times the coarsening factor differs from the extent of the finer level by at most
  the coarsening factor plus one (each of the four rounded bounds is off by less than one
  index).
\<close>

definition extents_scaled :: "int \<Rightarrow> ROIIndices \<Rightarrow> ROIIndices \<Rightarrow> bool" where
  "extents_scaled c fine coarse =
     (end_z coarse - start_z coarse = end_z fine - start_z fine \<and>
      \<bar>c * (end_y coarse - start_y coarse) - (end_y fine - start_y fine)\<bar> \<le> c + 1 \<and>
      \<bar>c * (end_x coarse - start_x coarse) - (end_x fine - start_x fine)\<bar> \<le> c + 1)"

text \<open>The ROI of the spec's scenario: 10 by 10 micrometers in the plane, 1 micrometer in Z.\<close>

definition scenario_row :: ROIRow where
  "scenario_row = \<lparr>x_micrometer = 0, y_micrometer = 0, z_micrometer = 0,
     len_x_micrometer = 10, len_y_micrometer = 10, len_z_micrometer = 1\<rparr>"

text \<open>The region of a region event; a ROI with an empty X slice and one with no empty slice.\<close>

fun region_of :: "region_event \<Rightarrow> ROIIndices" where
  "region_of (LoadRegion i) = i"
| "region_of (WriteRegion i) = i"

definition empty_slice :: ROIIndices where
  "empty_slice = \<lparr>start_z = 0, end_z = 1, start_y = 0, end_y = 62, start_x = 31, end_x = 31\<rparr>"

definition full_slice :: ROIIndices where
  "full_slice = \<lparr>start_z = 0, end_z = 1, start_y = 0, end_y = 62, start_x = 0, end_x = 62\<rparr>"

text \<open>Metadata whose level 1 has pixels of less than half the size of level 0.\<close>

definition inverted_pyramid :: NgffImageMeta where
  "inverted_pyramid = \<lparr>multiscales =
     [\<lparr>ms_name = None,
       ms_datasets =
         [\<lparr>path = ''0'', CoordinateTransformations = [Scale [1, 1, 1, 1]]\<rparr>,
          \<lparr>path = ''1'', CoordinateTransformations = [Scale [1, 1, 4 / 10, 4 / 10]]\<rparr>],
       ms_version = None, ms_axes = example_axes, ms_CoordinateTransformations = None\<rparr>]\<rparr>"

section \<open>Pixel sizes and Python's rounding\<close>

lemma py_round_nearest: "\<bar>of_int (py_round x) - x\<bar> \<le> 1 / 2"
  unfolding py_round_def Let_def by (auto simp: abs_if) linarith+

lemma pixel_sizes_loop_length:
  "pixel_sizes_loop xi yi zi ds = Inr ps \<Longrightarrow> length ps = length ds"
  by (induction ds arbitrary: ps) (auto split: sum.splits)

lemma level_pixel_sizes_lower:
  "level_pixel_sizes xi yi zi d = Inr (pz, py, px) \<Longrightarrow>
     min_pixel_size \<le> pz \<and> min_pixel_size \<le> py \<and> min_pixel_size \<le> px"
  unfolding level_pixel_sizes_def
  by (auto split: sum.splits transformation.splits option.splits if_splits)

lemma pixel_sizes_loop_lower:
  "pixel_sizes_loop xi yi zi ds = Inr ps \<Longrightarrow> p \<in> set ps \<Longrightarrow>
     min_pixel_size \<le> fst p \<and> min_pixel_size \<le> fst (snd p) \<and> min_pixel_size \<le> snd (snd p)"
proof (induction ds arbitrary: ps)
  case Nil
  then show ?case by simp
next
  case (Cons d ds)
  then show ?case
    by (cases p) (auto split: sum.splits dest!: level_pixel_sizes_lower)
qed

lemma pixel_sizes_zyx_length:
  "pixel_sizes_zyx m = Inr ps \<Longrightarrow> num_levels m = Inr (length ps)"
  unfolding pixel_sizes_zyx_def num_levels_def
  by (auto split: sum.splits option.splits dest: pixel_sizes_loop_length)

lemma pixel_sizes_zyx_nonzero:
  assumes "pixel_sizes_zyx m = Inr ps" and "i < length ps"
  shows "fst (snd (ps ! i)) \<noteq> 0 \<and> snd (snd (ps ! i)) \<noteq> 0"
proof -
  from assms(1) obtain xi yi zi ds where "pixel_sizes_loop xi yi zi ds = Inr ps"
    unfolding pixel_sizes_zyx_def by (auto split: sum.splits option.splits)
  from pixel_sizes_loop_lower [OF this, of "ps ! i"] assms(2)
  have "min_pixel_size \<le> fst (snd (ps ! i)) \<and> min_pixel_size \<le> snd (snd (ps ! i))" by simp
  moreover have "0 < min_pixel_size" by (simp add: min_pixel_size_def)
  ultimately show ?thesis by linarith
qed

lemma coarsening_loop_Some:
  assumes "pixel_sizes_zyx m = Inr ps"
    and "list_all (\<lambda>ind. 0 < ind \<and> ind < length ps) inds"
  shows "coarsening_loop m inds (Some r) =
           (if list_all (homogeneous ps r) inds then Inr (Some r)
            else coarsening_loop m inds (Some r))"
    and "\<not> list_all (homogeneous ps r) inds \<Longrightarrow>
           \<exists>msg. coarsening_loop m inds (Some r) = Inl (NotImplementedError msg)"
  using assms(2)
proof (induction inds)
  case Nil
  { case 1 show ?case by simp }
  { case 2 then show ?case by simp }
next
  case (Cons ind inds)
  {
    case 1
    then have b: "0 < ind" "ind < length ps"
      and rest: "list_all (\<lambda>ind. 0 < ind \<and> ind < length ps) inds"
      by simp_all
    from b have "ind - 1 < length ps" by simp
    from pixel_sizes_zyx_nonzero [OF assms(1) this]
    have nz: "fst (snd (ps ! (ind - 1))) \<noteq> 0" "snd (snd (ps ! (ind - 1))) \<noteq> 0" by simp_all
    from Cons.IH(1) [OF rest] show ?case
      using assms(1) b nz by (auto simp: homogeneous_def Let_def)
  }
  {
    case 2
    then have b: "0 < ind" "ind < length ps"
      and rest: "list_all (\<lambda>ind. 0 < ind \<and> ind < length ps) inds"
      by simp_all
    from b have "ind - 1 < length ps" by simp
    from pixel_sizes_zyx_nonzero [OF assms(1) this]
    have nz: "fst (snd (ps ! (ind - 1))) \<noteq> 0" "snd (snd (ps ! (ind - 1))) \<noteq> 0" by simp_all
    from Cons.IH(2) [OF _ rest] 2(1) show ?case
      using assms(1) b nz by (auto simp: homogeneous_def Let_def)
  }
qed

section \<open>Rescaling the datasets\<close>

lemma rescale_transformation_zyx:
  "(case t of Scale s \<Rightarrow> length s = 3 | Translation v \<Rightarrow> True) \<Longrightarrow>
     rescale_transformation c L t = Inr (rescaled_zyx c L t)"
proof (cases t)
  case (Scale s)
  assume "case t of Scale s \<Rightarrow> length s = 3 | Translation v \<Rightarrow> True"
  with Scale have "length s = 3" by simp
  then obtain z y x where "s = [z, y, x]"
    by (cases s; cases "tl s"; cases "tl (tl s)") auto
  with Scale show ?thesis by (simp add: rescale_transformation_def)
next
  case (Translation v)
  then show ?thesis by (simp add: rescale_transformation_def)
qed

lemma rescale_transformations_zyx:
  "list_all (\<lambda>t. case t of Scale s \<Rightarrow> length s = 3 | Translation v \<Rightarrow> True) ts \<Longrightarrow>
     rescale_transformations c L ts = Inr (map (rescaled_zyx c L) ts)"
  by (induction ts) (simp_all add: rescale_transformation_zyx)

lemma rescale_datasets_zyx_map:
  assumes "list_all zyx_scales dss"
  shows "rescale_datasets dss c L =
           Inr (map (\<lambda>ds. ds\<lparr>CoordinateTransformations :=
                              map (rescaled_zyx c L) (CoordinateTransformations ds)\<rparr>) dss)"
  using assms
  by (induction dss) (simp_all add: zyx_scales_def rescale_transformations_zyx)


text \<open>
  On datasets whose scales all have the three components (Z, Y, X), \<open>rescale_datasets\<close>
  returns one record per dataset, in order, with every field but the transformations
  unchanged; in each scale Y and X are multiplied by \<open>coarsening ^ reference_level\<close> and Z is
  untouched, and a translation passes unchanged.
\<close>

theorem rescale_datasets_zyx:
  assumes "list_all zyx_scales dss"
  shows "rescale_datasets dss c L =
           Inr (map (\<lambda>ds. ds\<lparr>CoordinateTransformations :=
                              map (rescaled_zyx c L) (CoordinateTransformations ds)\<rparr>) dss)"
  using assms by (rule rescale_datasets_zyx_map)

theorem rescale_datasets_zyx_witness:
  "list_all zyx_scales [zyx_level0] \<and>
   rescale_datasets [zyx_level0] 2 1 =
     Inr [\<lparr>path = ''0'', CoordinateTransformations =
            [Scale [1, 325 / 1000, 325 / 1000], Translation [0, 5, 5]]\<rparr>]"
proof -
  have h: "list_all zyx_scales [zyx_level0]"
    by (simp add: zyx_scales_def zyx_level0_def)
  from rescale_datasets_zyx [OF h, of 2 1] h show ?thesis
    by (simp add: zyx_level0_def)
qed

text \<open>
  Claim C1.  The claim speaks of every axis list, also one with a leading channel axis.
  \<open>rescale_datasets\<close> takes no axes: it always multiplies the entries 1 and 2 of the scale
  and returns a scale of three entries.  For the level-0 scale \<open>[c, z, y, x]\<close> of a CZYX
  image, with coarsening factor 2 and reference level 1, the Z entry is doubled, the Y
  entry is doubled, and the X entry is dropped, where the claim has the channel and Z
  entries unchanged and the Y and X entries doubled.
\<close>

theorem rescale_datasets_czyx_drops_x:
  "rescale_datasets [czyx_level0] 2 1 =
     Inr [\<lparr>path = ''0'', CoordinateTransformations = [Scale [1, 2, 325 / 1000]]\<rparr>] \<and>
   rescale_datasets [czyx_level0] 2 1 \<noteq>
     Inr [\<lparr>path = ''0'', CoordinateTransformations = [Scale [1, 1, 325 / 1000, 325 / 1000]]\<rparr>]"
  by (simp add: czyx_level0_def rescale_transformation_def)

section \<open>ROI indices across pyramid levels\<close>

lemma round_with_pair:
  "\<bar>(of_int (round_with rule a) - a) - (of_int (round_with rule b) - b)\<bar> \<le> (1::real)"
proof (cases rule)
  case Floor
  have "of_int (floor a) \<le> a" "a < of_int (floor a) + 1"
    "of_int (floor b) \<le> b" "b < of_int (floor b) + 1" by linarith+
  then show ?thesis unfolding round_with_def Floor rounding.case abs_le_iff by linarith
next
  case Round
  from py_round_nearest [of a] py_round_nearest [of b] show ?thesis
    unfolding round_with_def Round rounding.case abs_le_iff by linarith
qed

lemma axis_extent_scaled:
  assumes "0 < c"
  shows "\<bar>c * (round_with rule (of_int e0 / of_int (c ^ Suc L)) -
               round_with rule (of_int s0 / of_int (c ^ Suc L))) -
          (round_with rule (of_int e0 / of_int (c ^ L)) -
           round_with rule (of_int s0 / of_int (c ^ L)))\<bar> \<le> c + 1"
proof -
  define k :: real where "k = of_int (c ^ L)"
  define rc :: real where "rc = of_int c"
  define qe :: real where "qe = of_int e0 / k"
  define qs :: real where "qs = of_int s0 / k"
  have rc: "0 < rc" using assms by (simp add: rc_def)
  have k': "real_of_int (c ^ Suc L) = k * rc" by (simp add: k_def rc_def)
  have fe: "of_int e0 / real_of_int (c ^ Suc L) = qe / rc"
    and fs: "of_int s0 / real_of_int (c ^ Suc L) = qs / rc"
    unfolding k' qe_def qs_def by simp_all
  define e1 where "e1 = round_with rule (of_int e0 / real_of_int (c ^ Suc L))"
  define s1 where "s1 = round_with rule (of_int s0 / real_of_int (c ^ Suc L))"
  define e where "e = round_with rule (of_int e0 / real_of_int (c ^ L))"
  define s where "s = round_with rule (of_int s0 / real_of_int (c ^ L))"
  have e1: "e1 = round_with rule (qe / rc)" and s1: "s1 = round_with rule (qs / rc)"
    unfolding e1_def s1_def fe fs by simp_all
  have e: "e = round_with rule qe" and s: "s = round_with rule qs"
    unfolding e_def s_def qe_def qs_def k_def by simp_all
  have coarse: "\<bar>(of_int e1 - qe / rc) - (of_int s1 - qs / rc)\<bar> \<le> 1"
    unfolding e1 s1 by (rule round_with_pair)
  have fine: "\<bar>(of_int e - qe) - (of_int s - qs)\<bar> \<le> 1"
    unfolding e s by (rule round_with_pair)
  have split: "rc * (of_int e1 - of_int s1) - (of_int e - of_int s) =
      rc * ((of_int e1 - qe / rc) - (of_int s1 - qs / rc)) - ((of_int e - qe) - (of_int s - qs))"
    using rc by (simp add: field_simps)
  have "\<bar>rc * ((of_int e1 - qe / rc) - (of_int s1 - qs / rc))\<bar> \<le> rc * 1"
    unfolding abs_mult using rc coarse by (simp add: abs_of_pos)
  with fine have "\<bar>rc * (of_int e1 - of_int s1) - (of_int e - of_int s)\<bar> \<le> rc + 1"
    unfolding split by linarith
  then have "\<bar>real_of_int (c * (e1 - s1) - (e - s))\<bar> \<le> real_of_int (c + 1)"
    by (simp add: rc_def)
  then have "\<bar>c * (e1 - s1) - (e - s)\<bar> \<le> c + 1"
    by (metis of_int_abs of_int_le_iff)
  then show ?thesis
    unfolding e1_def s1_def e_def s_def .
qed

lemma convert_ROI_row_levels:
  assumes "0 < c" and "pz \<noteq> 0" and "py \<noteq> 0" and "px \<noteq> 0"
  shows "\<exists>fine coarse.
           convert_ROI_row rule L c (pz, py, px) origin row = Inr fine \<and>
           convert_ROI_row rule (Suc L) c (pz, py, px) origin row = Inr coarse \<and>
           extents_scaled c fine coarse"
proof -
  obtain ox oy oz where o: "origin = (ox, oy, oz)" by (cases origin) auto
  from assms(1) have nz: "c ^ L \<noteq> 0" "c ^ Suc L \<noteq> 0" by simp_all
  show ?thesis
    unfolding convert_ROI_row_def o extents_scaled_def Let_def
    using assms(2-4) nz axis_extent_scaled [OF assms(1), of rule _ L]
    by (simp del: power_Suc)
qed

text \<open>The model gives the indices of the spec's scenario at the levels 0 and 1, with either
  rounding rule.\<close>

lemma scenario_level0:
  "convert_ROI_table_to_indices rule [scenario_row] 0 2 (1, 1625 / 10000, 1625 / 10000) (0, 0, 0) =
     Inr [\<lparr>start_z = 0, end_z = 1, start_y = 0, end_y = 62, start_x = 0, end_x = 62\<rparr>]"
  by (cases rule) (simp_all add: convert_ROI_row_def scenario_row_def round_with_def py_round_def)

lemma scenario_level1:
  "convert_ROI_table_to_indices rule [scenario_row] (Suc 0) 2 (1, 1625 / 10000, 1625 / 10000) (0, 0, 0) =
     Inr [\<lparr>start_z = 0, end_z = 1, start_y = 0, end_y = 31, start_x = 0, end_x = 31\<rparr>]"
  by (cases rule) (simp_all add: convert_ROI_row_def scenario_row_def round_with_def py_round_def)

text \<open>
  Claim C2.  For a positive coarsening factor and nonzero pixel sizes, the conversion of a
  ROI table succeeds at every level \<open>L\<close> and at \<open>L + 1\<close>, with one tuple per row in the order
  of the rows, and row by row the Z extent at \<open>L + 1\<close> is the Z extent at \<open>L\<close>, while the Y and
  X extents at \<open>L + 1\<close>, multiplied by the coarsening factor, are within the coarsening factor
  plus one of the extents at \<open>L\<close>.  This holds for both rounding rules.
\<close>

theorem ROI_extents_across_levels:
  assumes "0 < c" and "pz \<noteq> 0" and "py \<noteq> 0" and "px \<noteq> 0"
  shows "\<exists>fine coarse.
           convert_ROI_table_to_indices rule table L c (pz, py, px) origin = Inr fine \<and>
           convert_ROI_table_to_indices rule table (Suc L) c (pz, py, px) origin = Inr coarse \<and>
           length fine = length table \<and>
           list_all2 (extents_scaled c) fine coarse"
proof (induction table)
  case Nil
  show ?case by simp
next
  case (Cons row rows)
  then obtain fine coarse where
    f: "convert_ROI_table_to_indices rule rows L c (pz, py, px) origin = Inr fine" and
    g: "convert_ROI_table_to_indices rule rows (Suc L) c (pz, py, px) origin = Inr coarse" and
    l: "length fine = length rows" and r: "list_all2 (extents_scaled c) fine coarse"
    by blast
  from convert_ROI_row_levels [OF assms, of rule L origin row] obtain a b where
    a: "convert_ROI_row rule L c (pz, py, px) origin row = Inr a" and
    b: "convert_ROI_row rule (Suc L) c (pz, py, px) origin row = Inr b" and
    ab: "extents_scaled c a b"
    by blast
  have "convert_ROI_table_to_indices rule (row # rows) L c (pz, py, px) origin = Inr (a # fine)"
    using a f by simp
  moreover
  have "convert_ROI_table_to_indices rule (row # rows) (Suc L) c (pz, py, px) origin = Inr (b # coarse)"
    using b g by simp
  moreover have "length (a # fine) = length (row # rows)" using l by simp
  moreover have "list_all2 (extents_scaled c) (a # fine) (b # coarse)" using ab r by simp
  ultimately show ?case by blast
qed

theorem ROI_extents_across_levels_witness:
  "(0::int) < 2 \<and>
   convert_ROI_table_to_indices Floor [scenario_row] 0 2 (1, 1625 / 10000, 1625 / 10000) (0, 0, 0) =
     Inr [\<lparr>start_z = 0, end_z = 1, start_y = 0, end_y = 62, start_x = 0, end_x = 62\<rparr>] \<and>
   convert_ROI_table_to_indices Floor [scenario_row] (Suc 0) 2 (1, 1625 / 10000, 1625 / 10000) (0, 0, 0) =
     Inr [\<lparr>start_z = 0, end_z = 1, start_y = 0, end_y = 31, start_x = 0, end_x = 31\<rparr>] \<and>
   extents_scaled 2
     \<lparr>start_z = 0, end_z = 1, start_y = 0, end_y = 62, start_x = 0, end_x = 62\<rparr>
     \<lparr>start_z = 0, end_z = 1, start_y = 0, end_y = 31, start_x = 0, end_x = 31\<rparr>"
proof -
  have h: "(0::int) < 2" "(1::real) \<noteq> 0" "(1625 / 10000 :: real) \<noteq> 0" by simp_all
  from ROI_extents_across_levels [OF h(1) h(2) h(3) h(3), of Floor "[scenario_row]" 0 "(0, 0, 0)"]
  show ?thesis
    unfolding scenario_level0 scenario_level1 by simp
qed

section \<open>The coarsening factor\<close>

lemma py_round_tie_even: "\<bar>of_int (py_round x) - x\<bar> = 1 / 2 \<Longrightarrow> even (py_round x)"
  unfolding py_round_def Let_def by (auto simp: abs_if split: if_splits) linarith+

lemma example_pyramid_pixel_sizes:
  "pixel_sizes_zyx example_pyramid =
     Inr [(1, 1625 / 10000, 1625 / 10000), (1, 325 / 1000, 325 / 1000), (1, 65 / 100, 65 / 100)]"
  by (simp add: pixel_sizes_zyx_def example_pyramid_def example_multiscale_def example_axes_def axes_def datasets_def
      multiscale_def getitem_def level_pixel_sizes_def scale_transformation_def min_pixel_size_def)

lemma anisotropic_pyramid_pixel_sizes:
  "pixel_sizes_zyx anisotropic_pyramid =
     Inr [(1, 1625 / 10000, 1625 / 10000), (1, 325 / 1000, 4875 / 10000)]"
  by (simp add: pixel_sizes_zyx_def anisotropic_pyramid_def example_axes_def axes_def datasets_def
      multiscale_def getitem_def level_pixel_sizes_def scale_transformation_def min_pixel_size_def)

lemma uneven_pyramid_pixel_sizes:
  "pixel_sizes_zyx uneven_pyramid =
     Inr [(1, 1625 / 10000, 1625 / 10000), (1, 325 / 1000, 325 / 1000), (1, 975 / 1000, 975 / 1000)]"
  by (simp add: pixel_sizes_zyx_def uneven_pyramid_def example_axes_def axes_def datasets_def
      multiscale_def getitem_def level_pixel_sizes_def scale_transformation_def min_pixel_size_def)

lemma coarsening_xy_loop:
  assumes "pixel_sizes_zyx m = Inr ps" and "2 \<le> length ps"
  shows "if py_round (snd (snd (ps ! 1)) / snd (snd (ps ! 0))) =
              py_round (fst (snd (ps ! 1)) / fst (snd (ps ! 0))) \<and>
            list_all (homogeneous ps (py_round (snd (snd (ps ! 1)) / snd (snd (ps ! 0)))))
              [2 ..< length ps]
         then coarsening_xy m = Inr (Some (py_round (snd (snd (ps ! 1)) / snd (snd (ps ! 0)))))
         else \<exists>msg. coarsening_xy m = Inl (NotImplementedError msg)"
proof -
  let ?n = "length ps" and ?r = "py_round (snd (snd (ps ! 1)) / snd (snd (ps ! 0)))"
  let ?ry = "py_round (fst (snd (ps ! 1)) / fst (snd (ps ! 0)))"
  have upt: "[Suc 0 ..< ?n] = Suc 0 # [2 ..< ?n]"
    using assms(2) by (simp add: upt_conv_Cons numeral_2_eq_2)
  have bounds: "list_all (\<lambda>ind. 0 < ind \<and> ind < ?n) [2 ..< ?n]"
    by (simp add: list_all_iff)
  have "0 < length ps" using assms(2) by (cases ps) simp_all
  from pixel_sizes_zyx_nonzero [OF assms(1) this]
  have nz: "fst (snd (ps ! 0)) \<noteq> 0" "snd (snd (ps ! 0)) \<noteq> 0" by simp_all
  have cx: "coarsening_xy m = coarsening_loop m (Suc 0 # [2 ..< ?n]) None"
    by (simp add: coarsening_xy_def pixel_sizes_zyx_length [OF assms(1)] upt)
  have one: "1 < ?n" using assms(2) by simp
  show ?thesis
  proof (cases "?r = ?ry")
    case False
    then have "coarsening_xy m =
        Inl (NotImplementedError ''Inhomogeneous coarsening in X/Y directions is not supported.'')"
      using assms(1) one nz unfolding cx by (simp add: Let_def)
    with False show ?thesis by simp
  next
    case True
    then have step: "coarsening_xy m = coarsening_loop m [2 ..< ?n] (Some ?r)"
      using assms(1) one nz unfolding cx by (simp add: Let_def)
    show ?thesis
    proof (cases "list_all (homogeneous ps ?r) [2 ..< ?n]")
      case h: True
      with coarsening_loop_Some(1) [OF assms(1) bounds, of ?r] True show ?thesis
        unfolding step by simp
    next
      case h: False
      with coarsening_loop_Some(2) [OF assms(1) bounds, of ?r] True show ?thesis
        unfolding step by simp
    qed
  qed
qed

text \<open>
  Claim C3.  For metadata whose pixel sizes \<open>ps\<close> can be extracted (one multiscale, every
  level with a unique, large enough scale) and with at least two levels, where the X pixel
  size of a level is the third component of its entry of \<open>ps\<close> and the Y pixel size the
  second.  If at every level transition Python's \<^verbatim>\<open>round\<close> of the quotient of the X pixel
  sizes of the two levels equals that of the Y pixel sizes, and equals the rounded X
  quotient of the levels 1 and 0, then \<open>coarsening_xy\<close> returns that integer; otherwise it
  raises a \<^verbatim>\<open>NotImplementedError\<close>.  An integer that is returned is, for every pair of
  consecutive levels, within 1/2 of the quotient of their X pixel sizes and of their Y
  pixel sizes, and it is even where it is exactly 1/2 away from the X quotient: it is that
  quotient rounded to the nearest integer, whichever pair of levels it is computed from.
\<close>

theorem coarsening_xy_consecutive_ratio:
  assumes "pixel_sizes_zyx m = Inr ps" and "2 \<le> length ps"
  shows "(if \<forall>ind \<in> {1 ..< length ps}.
              py_round (snd (snd (ps ! ind)) / snd (snd (ps ! (ind - 1)))) =
                py_round (fst (snd (ps ! ind)) / fst (snd (ps ! (ind - 1)))) \<and>
              py_round (snd (snd (ps ! ind)) / snd (snd (ps ! (ind - 1)))) =
                py_round (snd (snd (ps ! 1)) / snd (snd (ps ! 0)))
          then coarsening_xy m = Inr (Some (py_round (snd (snd (ps ! 1)) / snd (snd (ps ! 0)))))
          else \<exists>msg. coarsening_xy m = Inl (NotImplementedError msg)) \<and>
         (\<forall>r. coarsening_xy m = Inr (Some r) \<longrightarrow>
            (\<forall>ind \<in> {1 ..< length ps}.
               \<bar>of_int r - snd (snd (ps ! ind)) / snd (snd (ps ! (ind - 1)))\<bar> \<le> 1 / 2 \<and>
               \<bar>of_int r - fst (snd (ps ! ind)) / fst (snd (ps ! (ind - 1)))\<bar> \<le> 1 / 2 \<and>
               (\<bar>of_int r - snd (snd (ps ! ind)) / snd (snd (ps ! (ind - 1)))\<bar> = 1 / 2
                  \<longrightarrow> even r)))"
proof -
  let ?n = "length ps" and ?r = "py_round (snd (snd (ps ! 1)) / snd (snd (ps ! 0)))"
  let ?X = "\<lambda>ind. snd (snd (ps ! ind)) / snd (snd (ps ! (ind - 1)))"
  let ?Y = "\<lambda>ind. fst (snd (ps ! ind)) / fst (snd (ps ! (ind - 1)))"
  let ?H = "\<forall>ind \<in> {1 ..< ?n}. py_round (?X ind) = py_round (?Y ind) \<and> py_round (?X ind) = ?r"
  have all_iff: "?H \<longleftrightarrow>
      (?r = py_round (fst (snd (ps ! 1)) / fst (snd (ps ! 0))) \<and>
       list_all (homogeneous ps ?r) [2 ..< ?n])"
  proof -
    have "{1 ..< ?n} = insert 1 {2 ..< ?n}" using assms(2) by auto
    then show ?thesis by (auto simp: list_all_iff homogeneous_def)
  qed
  have first: "if ?H then coarsening_xy m = Inr (Some ?r)
      else \<exists>msg. coarsening_xy m = Inl (NotImplementedError msg)"
    using coarsening_xy_loop [OF assms] unfolding all_iff .
  have second: "\<bar>of_int r - ?X ind\<bar> \<le> 1 / 2 \<and> \<bar>of_int r - ?Y ind\<bar> \<le> 1 / 2 \<and>
      (\<bar>of_int r - ?X ind\<bar> = 1 / 2 \<longrightarrow> even r)"
    if ret: "coarsening_xy m = Inr (Some r)" and ind: "ind \<in> {1 ..< ?n}" for r ind
  proof -
    have H: ?H
    proof (rule ccontr)
      assume n: "\<not> ?H"
      from first have "\<exists>msg. coarsening_xy m = Inl (NotImplementedError msg)"
        unfolding if_not_P [OF n] .
      with ret show False by simp
    qed
    from first have "coarsening_xy m = Inr (Some ?r)" unfolding if_P [OF H] .
    with ret have r: "r = ?r" by simp
    from H ind have "py_round (?X ind) = py_round (?Y ind) \<and> py_round (?X ind) = ?r"
      by (rule bspec)
    then have x: "py_round (?X ind) = r" and y: "py_round (?Y ind) = r"
      unfolding r by simp_all
    from py_round_nearest [of "?X ind"] py_round_nearest [of "?Y ind"]
      py_round_tie_even [of "?X ind"]
    show ?thesis unfolding x y by blast
  qed
  from first second show ?thesis by blast
qed

theorem coarsening_xy_consecutive_ratio_witness:
  "pixel_sizes_zyx example_pyramid =
     Inr [(1, 1625 / 10000, 1625 / 10000), (1, 325 / 1000, 325 / 1000), (1, 65 / 100, 65 / 100)] \<and>
   coarsening_xy example_pyramid = Inr (Some 2) \<and>
   pixel_sizes_zyx anisotropic_pyramid =
     Inr [(1, 1625 / 10000, 1625 / 10000), (1, 325 / 1000, 4875 / 10000)] \<and>
   (\<exists>msg. coarsening_xy anisotropic_pyramid = Inl (NotImplementedError msg)) \<and>
   pixel_sizes_zyx uneven_pyramid =
     Inr [(1, 1625 / 10000, 1625 / 10000), (1, 325 / 1000, 325 / 1000), (1, 975 / 1000, 975 / 1000)] \<and>
   (\<exists>msg. coarsening_xy uneven_pyramid = Inl (NotImplementedError msg))"
proof -
  let ?ps = "[(1, 1625 / 10000, 1625 / 10000), (1, 325 / 1000, 325 / 1000), (1, 65 / 100, 65 / 100)]
      :: (real \<times> real \<times> real) list"
  let ?qs = "[(1, 1625 / 10000, 1625 / 10000), (1, 325 / 1000, 4875 / 10000)]
      :: (real \<times> real \<times> real) list"
  let ?us = "[(1, 1625 / 10000, 1625 / 10000), (1, 325 / 1000, 325 / 1000), (1, 975 / 1000, 975 / 1000)]
      :: (real \<times> real \<times> real) list"
  have s: "{1 ..< length ?ps} = {1, 2}" "{1 ..< length ?qs} = {1}" "{1 ..< length ?us} = {1, 2}"
    by auto
  from coarsening_xy_consecutive_ratio [OF example_pyramid_pixel_sizes]
  have a: "coarsening_xy example_pyramid = Inr (Some 2)"
    unfolding s by (simp add: py_round_def)
  from coarsening_xy_consecutive_ratio [OF anisotropic_pyramid_pixel_sizes]
  have b: "\<exists>msg. coarsening_xy anisotropic_pyramid = Inl (NotImplementedError msg)"
    unfolding s by (simp add: py_round_def)
  from coarsening_xy_consecutive_ratio [OF uneven_pyramid_pixel_sizes]
  have c: "\<exists>msg. coarsening_xy uneven_pyramid = Inl (NotImplementedError msg)"
    unfolding s by (simp add: py_round_def)
  from a b c example_pyramid_pixel_sizes anisotropic_pyramid_pixel_sizes uneven_pyramid_pixel_sizes
  show ?thesis by simp
qed

section \<open>Validation of the ROI indices\<close>

text \<open>
  Claim C4.  When some tuple has \<open>end <= start\<close> on some axis, \<open>check_valid_ROI_indices\<close>
  raises, and the wrapper ends with that error without a single region read or written;
  when every tuple has \<open>end > start\<close> on every axis it does not raise and the loop over the
  ROIs runs.  In both cases every region that is read or written has \<open>end > start\<close> on
  every axis.
\<close>

theorem invalid_ROI_indices_raise_before_regions:
  "((\<exists>i \<in> set list_indices. end_z i \<le> start_z i \<or> end_y i \<le> start_y i \<or> end_x i \<le> start_x i)
      \<longrightarrow> check_valid_ROI_indices list_indices name = Inl InvalidROIError \<and>
          wrapper_regions n_inputs n_label_outputs name list_indices = (Inl InvalidROIError, [])) \<and>
   ((\<forall>i \<in> set list_indices. start_z i < end_z i \<and> start_y i < end_y i \<and> start_x i < end_x i)
      \<longrightarrow> check_valid_ROI_indices list_indices name = Inr () \<and>
          wrapper_regions n_inputs n_label_outputs name list_indices =
            (Inr (), ROI_loop n_inputs n_label_outputs list_indices)) \<and>
   (\<forall>e \<in> set (snd (wrapper_regions n_inputs n_label_outputs name list_indices)).
      start_z (region_of e) < end_z (region_of e) \<and> start_y (region_of e) < end_y (region_of e) \<and>
      start_x (region_of e) < end_x (region_of e))"
proof (intro conjI impI)
  assume "\<exists>i \<in> set list_indices. end_z i \<le> start_z i \<or> end_y i \<le> start_y i \<or> end_x i \<le> start_x i"
  then obtain i where "i \<in> set list_indices" and "\<not> valid_ROI_indices i"
    by (auto simp: valid_ROI_indices_def)
  then have "\<not> list_all valid_ROI_indices list_indices"
    unfolding list_all_iff by blast
  then show "check_valid_ROI_indices list_indices name = Inl InvalidROIError"
    and "wrapper_regions n_inputs n_label_outputs name list_indices = (Inl InvalidROIError, [])"
    by (simp_all add: check_valid_ROI_indices_def wrapper_regions_def)
next
  assume "\<forall>i \<in> set list_indices. start_z i < end_z i \<and> start_y i < end_y i \<and> start_x i < end_x i"
  then have "list_all valid_ROI_indices list_indices"
    by (simp add: list_all_iff valid_ROI_indices_def)
  then show "check_valid_ROI_indices list_indices name = Inr ()"
    and "wrapper_regions n_inputs n_label_outputs name list_indices =
      (Inr (), ROI_loop n_inputs n_label_outputs list_indices)"
    by (simp_all add: check_valid_ROI_indices_def wrapper_regions_def)
next
  show "\<forall>e \<in> set (snd (wrapper_regions n_inputs n_label_outputs name list_indices)).
      start_z (region_of e) < end_z (region_of e) \<and> start_y (region_of e) < end_y (region_of e) \<and>
      start_x (region_of e) < end_x (region_of e)"
  proof (cases "list_all valid_ROI_indices list_indices")
    case False
    then show ?thesis by (simp add: check_valid_ROI_indices_def wrapper_regions_def)
  next
    case True
    then have v: "\<forall>i \<in> set list_indices. valid_ROI_indices i" by (simp add: list_all_iff)
    have "region_of e \<in> set list_indices"
      if "e \<in> set (ROI_loop n_inputs n_label_outputs list_indices)" for e
      using that unfolding ROI_loop_def by auto
    with v True show ?thesis
      by (auto simp: check_valid_ROI_indices_def wrapper_regions_def valid_ROI_indices_def)
  qed
qed

theorem invalid_ROI_indices_raise_before_regions_witness:
  "end_x empty_slice \<le> start_x empty_slice \<and>
   check_valid_ROI_indices [full_slice, empty_slice] ''FOV_ROI_table'' = Inl InvalidROIError \<and>
   wrapper_regions 1 1 ''FOV_ROI_table'' [full_slice, empty_slice] = (Inl InvalidROIError, []) \<and>
   check_valid_ROI_indices [full_slice] ''FOV_ROI_table'' = Inr () \<and>
   wrapper_regions 1 1 ''FOV_ROI_table'' [full_slice] =
     (Inr (), [LoadRegion full_slice, WriteRegion full_slice])"
proof -
  have bad: "\<exists>i \<in> set [full_slice, empty_slice].
      end_z i \<le> start_z i \<or> end_y i \<le> start_y i \<or> end_x i \<le> start_x i"
    by (simp add: empty_slice_def)
  have good: "\<forall>i \<in> set [full_slice]. start_z i < end_z i \<and> start_y i < end_y i \<and> start_x i < end_x i"
    by (simp add: full_slice_def)
  have loop: "ROI_loop 1 1 [full_slice] = [LoadRegion full_slice, WriteRegion full_slice]"
    by (simp add: ROI_loop_def)
  from invalid_ROI_indices_raise_before_regions [of "[full_slice, empty_slice]" "''FOV_ROI_table''" 1 1] bad
  have a: "check_valid_ROI_indices [full_slice, empty_slice] ''FOV_ROI_table'' = Inl InvalidROIError"
    "wrapper_regions 1 1 ''FOV_ROI_table'' [full_slice, empty_slice] = (Inl InvalidROIError, [])"
    by blast+
  from invalid_ROI_indices_raise_before_regions [of "[full_slice]" "''FOV_ROI_table''" 1 1] good
  have b: "check_valid_ROI_indices [full_slice] ''FOV_ROI_table'' = Inr ()"
    "wrapper_regions 1 1 ''FOV_ROI_table'' [full_slice] = (Inr (), ROI_loop 1 1 [full_slice])"
    by blast+
  from a b loop show ?thesis by (simp add: empty_slice_def)
qed

section \<open>The checks on the multiscale list\<close>

lemma level_pixel_sizes_not_NIE:
  "level_pixel_sizes xi yi zi d \<noteq> Inl (NotImplementedError msg)"
  unfolding level_pixel_sizes_def scale_transformation_def getitem_def pixel_sizes_too_small_error_def
  by (auto split: sum.splits transformation.splits option.splits if_splits simp: Let_def)

lemma pixel_sizes_loop_not_NIE:
  "pixel_sizes_loop xi yi zi ds \<noteq> Inl (NotImplementedError msg)"
  by (induction ds) (auto split: sum.splits simp: level_pixel_sizes_not_NIE)

lemma multiscale_many:
  "1 < length (multiscales m) \<Longrightarrow> multiscale m = Inl one_multiscale_error"
  by (simp add: multiscale_def)

lemma multiscale_single: "multiscales m = [ms] \<Longrightarrow> multiscale m = Inr ms"
  by (simp add: multiscale_def getitem_def)

lemma many_multiscales_raise:
  assumes "1 < length (multiscales m)"
  shows "pixel_sizes_zyx m = Inl one_multiscale_error"
    and "get_pixel_sizes_zyx m level = Inl one_multiscale_error"
    and "coarsening_xy m = Inl one_multiscale_error"
  using assms
  by (simp_all add: pixel_sizes_zyx_def get_pixel_sizes_zyx_def coarsening_xy_def num_levels_def
      datasets_def axes_def multiscale_many)

lemma Multiscale_validate_global:
  "key_global_CoordinateTransformations ms \<noteq> None \<Longrightarrow> isl (Multiscale_validate ms)"
  by (auto simp: Multiscale_validate_def no_global_CoordinateTransformations_def)

lemma validate_multiscales_global:
  "ms \<in> set mss \<Longrightarrow> key_global_CoordinateTransformations ms \<noteq> None \<Longrightarrow>
     isl (validate_multiscales mss)"
proof (induction mss)
  case Nil
  then show ?case by simp
next
  case (Cons a mss)
  show ?case
  proof (cases "ms = a")
    case True
    with Cons.prems Multiscale_validate_global [of a] show ?thesis
      by (auto split: sum.splits)
  next
    case False
    with Cons have "isl (validate_multiscales mss)" by simp
    then show ?thesis by (auto split: sum.splits simp: isl_def)
  qed
qed

lemma load_global:
  "ms \<in> set (key_multiscales attrs) \<Longrightarrow> key_global_CoordinateTransformations ms \<noteq> None \<Longrightarrow>
     isl (load_NgffImageMeta attrs)"
  using validate_multiscales_global [of ms "key_multiscales attrs"]
  by (auto simp: load_NgffImageMeta_def isl_def split: sum.splits)

lemma single_clean_load:
  assumes "key_multiscales attrs = [ms]" and "key_global_CoordinateTransformations ms = None"
  shows "load_NgffImageMeta attrs \<noteq> Inl global_transformations_error"
    and "load_NgffImageMeta attrs \<noteq> Inl one_multiscale_error"
  using assms
  by (auto simp: load_NgffImageMeta_def Multiscale_validate_def no_global_CoordinateTransformations_def
      global_transformations_error_def one_multiscale_error_def
      split: sum.splits if_splits option.splits)

lemma single_clean_ops:
  assumes "multiscales m = [ms]"
  shows "pixel_sizes_zyx m \<noteq> Inl one_multiscale_error"
    and "get_pixel_sizes_zyx m level \<noteq> Inl one_multiscale_error"
proof -
  show a: "pixel_sizes_zyx m \<noteq> Inl one_multiscale_error"
    using multiscale_single [OF assms] pixel_sizes_loop_not_NIE
    by (auto simp: pixel_sizes_zyx_def axes_def datasets_def one_multiscale_error_def
        split: sum.splits option.splits)
  show "get_pixel_sizes_zyx m level \<noteq> Inl one_multiscale_error"
    using a by (auto simp: get_pixel_sizes_zyx_def getitem_def one_multiscale_error_def
        split: sum.splits if_splits)
qed

lemma coarsening_loop_not_one_multiscale:
  "pixel_sizes_zyx m \<noteq> Inl one_multiscale_error \<Longrightarrow>
     coarsening_loop m inds cur \<noteq> Inl one_multiscale_error"
  by (induction m inds cur rule: coarsening_loop.induct)
     (auto simp: one_multiscale_error_def Let_def split: sum.splits option.splits if_splits)

lemma single_clean_coarsening:
  assumes "multiscales m = [ms]"
  shows "coarsening_xy m \<noteq> Inl one_multiscale_error"
  using coarsening_loop_not_one_multiscale [OF single_clean_ops(1) [OF assms]]
    multiscale_single [OF assms]
  by (simp add: coarsening_xy_def num_levels_def datasets_def)

lemma validate_multiscales_length:
  "validate_multiscales mss = Inr mss' \<Longrightarrow> length mss' = length mss"
  by (induction mss arbitrary: mss') (auto split: sum.splits if_splits)

lemma load_length:
  "load_NgffImageMeta a = Inr m \<Longrightarrow> length (multiscales m) = length (key_multiscales a)"
  by (auto simp: load_NgffImageMeta_def split: sum.splits if_splits
      dest: validate_multiscales_length)

lemma pixel_sizes_zyx_not_global:
  "pixel_sizes_zyx m \<noteq> Inl global_transformations_error"
  using pixel_sizes_loop_not_NIE
  by (auto simp: pixel_sizes_zyx_def axes_def datasets_def multiscale_def getitem_def
      global_transformations_error_def one_multiscale_error_def
      split: sum.splits option.splits if_splits)

lemma get_pixel_sizes_zyx_not_global:
  "get_pixel_sizes_zyx m level \<noteq> Inl global_transformations_error"
  using pixel_sizes_zyx_not_global [of m]
  by (auto simp: get_pixel_sizes_zyx_def getitem_def global_transformations_error_def
      split: sum.splits if_splits)

lemma coarsening_loop_not_global:
  "coarsening_loop m inds cur \<noteq> Inl global_transformations_error"
proof (induction m inds cur rule: coarsening_loop.induct)
  case (1 m current_ratio)
  then show ?case by simp
next
  case (2 m ind inds current_ratio)
  with pixel_sizes_zyx_not_global [of m] show ?case
    by (auto simp: global_transformations_error_def Let_def
        split: sum.splits option.splits if_splits)
qed

lemma coarsening_xy_not_global:
  "coarsening_xy m \<noteq> Inl global_transformations_error"
  using coarsening_loop_not_global
  by (auto simp: coarsening_xy_def num_levels_def datasets_def multiscale_def getitem_def
      global_transformations_error_def one_multiscale_error_def split: sum.splits if_splits)

lemma example_multiscale_attrs_valid:
  "Multiscale_validate example_multiscale_attrs = Inr example_multiscale"
  "Multiscale_validate (example_multiscale_attrs\<lparr>key_name := Some ''second''\<rparr>) =
     Inr (example_multiscale\<lparr>ms_name := Some ''second''\<rparr>)"
  "Multiscale_validate
     (example_multiscale_attrs\<lparr>key_global_coordinateTransformations := Some [Scale [1, 1, 1, 1]]\<rparr>) =
     Inr example_multiscale"
  "Multiscale_validate
     (example_multiscale_attrs\<lparr>key_global_CoordinateTransformations := Some [Scale [1, 1, 1, 1]]\<rparr>) =
     Inl global_transformations_error"
  by (simp_all add: Multiscale_validate_def no_global_CoordinateTransformations_def
      Dataset_parse_def transformation_valid_def Axis.truncate_def
      example_multiscale_attrs_def example_datasets_attrs_def
      example_multiscale_def example_axes_def)

lemma load_examples:
  "load_NgffImageMeta example_attrs = Inr example_pyramid"
  "load_NgffImageMeta global_key_attrs = Inr example_pyramid"
  "load_NgffImageMeta global_field_attrs = Inl global_transformations_error"
  "load_NgffImageMeta two_multiscales_attrs = Inr two_multiscales"
  by (simp_all add: load_NgffImageMeta_def example_attrs_def global_key_attrs_def
      global_field_attrs_def two_multiscales_attrs_def example_multiscale_attrs_valid
      example_pyramid_def two_multiscales_def global_transformations_error_def)
     (simp add: example_multiscale_attrs_def)

text \<open>Attributes that spell the key of a dataset as the NGFF specification does are not
  loaded: the required field of \<^verbatim>\<open>Dataset\<close> is missing.\<close>

lemma ngff_spelled_datasets_not_loaded:
  "load_NgffImageMeta ngff_spelled_attrs = Inl ValidationError"
  by (simp add: load_NgffImageMeta_def ngff_spelled_attrs_def Multiscale_validate_def
      no_global_CoordinateTransformations_def Dataset_parse_def example_multiscale_attrs_def)

lemma example_pyramid_coarsening: "coarsening_xy example_pyramid = Inr (Some 2)"
  by (simp add: coarsening_xy_def num_levels_def datasets_def multiscale_def getitem_def
      example_pyramid_def example_multiscale_def pixel_sizes_zyx_def axes_def example_axes_def
      level_pixel_sizes_def scale_transformation_def min_pixel_size_def Let_def py_round_def
      upt_conv_Cons)

text \<open>
  The checks of \<^verbatim>\<open>lib_ngff.py\<close> as the code has them.  When the attributes hold more than
  one multiscale, or some multiscale has the key \<^verbatim>\<open>CoordinateTransformations\<close> (the spelling
  of the field), loading the metadata and then reading the pixel sizes (all levels or one
  level) or the coarsening factor raises; where the object could be built at all, the error
  of each property is the one of the multiscale check, whatever the datasets hold, so it is
  raised before any pixel size is read.  With exactly one multiscale that does not have that
  key, none of these operations ends in the error of either check.
\<close>

theorem multiscale_checks_come_first:
  "(1 < length (key_multiscales a) \<or>
    (\<exists>ms \<in> set (key_multiscales a). key_global_CoordinateTransformations ms \<noteq> None)
      \<longrightarrow> isl (load_and pixel_sizes_zyx a) \<and>
          isl (load_and (\<lambda>m. get_pixel_sizes_zyx m level) a) \<and>
          isl (load_and coarsening_xy a) \<and>
          (\<forall>m. load_NgffImageMeta a = Inr m \<longrightarrow>
             pixel_sizes_zyx m = Inl one_multiscale_error \<and>
             get_pixel_sizes_zyx m level = Inl one_multiscale_error \<and>
             coarsening_xy m = Inl one_multiscale_error)) \<and>
   ((\<exists>ms. key_multiscales a = [ms] \<and> key_global_CoordinateTransformations ms = None)
      \<longrightarrow> load_and pixel_sizes_zyx a \<notin> {Inl one_multiscale_error, Inl global_transformations_error} \<and>
          load_and (\<lambda>m. get_pixel_sizes_zyx m level) a
            \<notin> {Inl one_multiscale_error, Inl global_transformations_error} \<and>
          load_and coarsening_xy a \<notin> {Inl one_multiscale_error, Inl global_transformations_error})"
proof (intro conjI impI)
  assume bad: "1 < length (key_multiscales a) \<or>
    (\<exists>ms \<in> set (key_multiscales a). key_global_CoordinateTransformations ms \<noteq> None)"
  have loaded: "pixel_sizes_zyx m = Inl one_multiscale_error \<and>
      get_pixel_sizes_zyx m level = Inl one_multiscale_error \<and>
      coarsening_xy m = Inl one_multiscale_error" if "load_NgffImageMeta a = Inr m" for m
  proof -
    from that load_global [of _ a]
    have "\<not> (\<exists>ms \<in> set (key_multiscales a). key_global_CoordinateTransformations ms \<noteq> None)"
      by fastforce
    with bad have "1 < length (key_multiscales a)" by blast
    with load_length [OF that] have "1 < length (multiscales m)" by simp
    from many_multiscales_raise [OF this] show ?thesis by simp
  qed
  then show "\<forall>m. load_NgffImageMeta a = Inr m \<longrightarrow>
      pixel_sizes_zyx m = Inl one_multiscale_error \<and>
      get_pixel_sizes_zyx m level = Inl one_multiscale_error \<and>
      coarsening_xy m = Inl one_multiscale_error" by blast
  from loaded show "isl (load_and pixel_sizes_zyx a)"
    by (cases "load_NgffImageMeta a") (simp_all add: load_and_def)
  from loaded show "isl (load_and (\<lambda>m. get_pixel_sizes_zyx m level) a)"
    by (cases "load_NgffImageMeta a") (simp_all add: load_and_def)
  from loaded show "isl (load_and coarsening_xy a)"
    by (cases "load_NgffImageMeta a") (simp_all add: load_and_def)
next
  assume "\<exists>ms. key_multiscales a = [ms] \<and> key_global_CoordinateTransformations ms = None"
  then obtain ms where one: "key_multiscales a = [ms]"
    and clean: "key_global_CoordinateTransformations ms = None"
    by blast
  have ld: "load_NgffImageMeta a \<noteq> Inl one_multiscale_error"
    "load_NgffImageMeta a \<noteq> Inl global_transformations_error"
    using single_clean_load [OF one clean] by simp_all
  have single: "\<exists>ms'. multiscales m = [ms']" if "load_NgffImageMeta a = Inr m" for m
  proof -
    from load_length [OF that] one have "length (multiscales m) = 1" by simp
    then show ?thesis by (cases "multiscales m") simp_all
  qed
  show "load_and pixel_sizes_zyx a \<notin> {Inl one_multiscale_error, Inl global_transformations_error}"
  proof (cases "load_NgffImageMeta a")
    case (Inl e)
    with ld show ?thesis by (auto simp: load_and_def)
  next
    case (Inr m)
    from single [OF Inr] obtain ms' where "multiscales m = [ms']" by blast
    from single_clean_ops(1) [OF this] pixel_sizes_zyx_not_global [of m] Inr show ?thesis
      by (simp add: load_and_def)
  qed
  show "load_and (\<lambda>m. get_pixel_sizes_zyx m level) a
      \<notin> {Inl one_multiscale_error, Inl global_transformations_error}"
  proof (cases "load_NgffImageMeta a")
    case (Inl e)
    with ld show ?thesis by (auto simp: load_and_def)
  next
    case (Inr m)
    from single [OF Inr] obtain ms' where "multiscales m = [ms']" by blast
    from single_clean_ops(2) [OF this] get_pixel_sizes_zyx_not_global [of m] Inr show ?thesis
      by (simp add: load_and_def)
  qed
  show "load_and coarsening_xy a \<notin> {Inl one_multiscale_error, Inl global_transformations_error}"
  proof (cases "load_NgffImageMeta a")
    case (Inl e)
    with ld show ?thesis by (auto simp: load_and_def)
  next
    case (Inr m)
    from single [OF Inr] obtain ms' where "multiscales m = [ms']" by blast
    from single_clean_coarsening [OF this] coarsening_xy_not_global [of m] Inr show ?thesis
      by (simp add: load_and_def)
  qed
qed

theorem multiscale_checks_come_first_witness:
  "1 < length (key_multiscales two_multiscales_attrs) \<and>
   load_NgffImageMeta two_multiscales_attrs = Inr two_multiscales \<and>
   load_and coarsening_xy two_multiscales_attrs = Inl one_multiscale_error \<and>
   key_global_CoordinateTransformations (hd (key_multiscales global_field_attrs)) \<noteq> None \<and>
   isl (load_and coarsening_xy global_field_attrs) \<and>
   key_multiscales example_attrs = [example_multiscale_attrs] \<and>
   key_global_CoordinateTransformations example_multiscale_attrs = None \<and>
   load_and coarsening_xy example_attrs \<noteq> Inl one_multiscale_error \<and>
   load_and coarsening_xy example_attrs \<noteq> Inl global_transformations_error"
proof -
  have h1: "1 < length (key_multiscales two_multiscales_attrs)"
    by (simp add: two_multiscales_attrs_def)
  note l1 = load_examples(4)
  have h2: "\<exists>ms \<in> set (key_multiscales global_field_attrs).
      key_global_CoordinateTransformations ms \<noteq> None"
    by (simp add: global_field_attrs_def)
  have h2': "key_global_CoordinateTransformations (hd (key_multiscales global_field_attrs)) \<noteq> None"
    by (simp add: global_field_attrs_def)
  have h3: "key_multiscales example_attrs = [example_multiscale_attrs]"
    "key_global_CoordinateTransformations example_multiscale_attrs = None"
    by (simp_all add: example_attrs_def example_multiscale_attrs_def)
  then have h3': "\<exists>ms. key_multiscales example_attrs = [ms] \<and>
      key_global_CoordinateTransformations ms = None"
    by blast
  from multiscale_checks_come_first [of two_multiscales_attrs 0] h1 l1
  have a: "load_and coarsening_xy two_multiscales_attrs = Inl one_multiscale_error"
    by (simp_all add: load_and_def)
  from multiscale_checks_come_first [of global_field_attrs 0] h2
  have b: "isl (load_and coarsening_xy global_field_attrs)" by blast
  from multiscale_checks_come_first [of example_attrs 0] h3'
  have c: "load_and coarsening_xy example_attrs \<noteq> Inl one_multiscale_error"
    "load_and coarsening_xy example_attrs \<noteq> Inl global_transformations_error"
    by simp_all
  from h1 l1 a h2' b h3 c show ?thesis by simp
qed

text \<open>
  Claim C5.  The claim has every operation raise when a \<^verbatim>\<open>coordinateTransformations\<close>
  attribute is present at the level of the multiscale.  The validator of \<^verbatim>\<open>Multiscale\<close> is
  attached to the field \<^verbatim>\<open>CoordinateTransformations\<close>, so it never sees the key
  \<^verbatim>\<open>coordinateTransformations\<close>: for the attributes \<open>global_key_attrs\<close>, which have that key
  at the level of their one multiscale, the object is built as without the key, and the
  pixel sizes of all levels, those of level 0 and the coarsening factor are returned.  The
  check does fire on the key spelled as the field, and \<open>extract_zyx_pixel_sizes\<close> raises for
  a \<^verbatim>\<open>.zattrs\<close> file whose multiscale has the key \<^verbatim>\<open>coordinateTransformations\<close>.
\<close>

theorem global_coordinateTransformations_key_not_rejected:
  "key_global_coordinateTransformations (hd (key_multiscales global_key_attrs)) =
     Some [Scale [1, 1, 1, 1]] \<and>
   load_NgffImageMeta global_key_attrs = Inr example_pyramid \<and>
   load_NgffImageMeta example_attrs = Inr example_pyramid \<and>
   load_and pixel_sizes_zyx global_key_attrs =
     Inr [(1, 1625 / 10000, 1625 / 10000), (1, 325 / 1000, 325 / 1000), (1, 65 / 100, 65 / 100)] \<and>
   load_and (\<lambda>m. get_pixel_sizes_zyx m 0) global_key_attrs = Inr (1, 1625 / 10000, 1625 / 10000) \<and>
   load_and coarsening_xy global_key_attrs = Inr (Some 2) \<and>
   load_and pixel_sizes_zyx global_field_attrs = Inl global_transformations_error \<and>
   extract_zyx_pixel_sizes global_transformation 0 =
     Inl (NotImplementedError
       ''global coordinateTransformations at the multiscales level are not currently supported'')"
proof -
  have a: "key_global_coordinateTransformations (hd (key_multiscales global_key_attrs)) =
      Some [Scale [1, 1, 1, 1]]"
    by (simp add: global_key_attrs_def)
  have b: "load_and pixel_sizes_zyx global_key_attrs =
      Inr [(1, 1625 / 10000, 1625 / 10000), (1, 325 / 1000, 325 / 1000), (1, 65 / 100, 65 / 100)]"
    by (simp add: load_and_def load_examples example_pyramid_pixel_sizes)
  have c: "load_and (\<lambda>m. get_pixel_sizes_zyx m 0) global_key_attrs =
      Inr (1, 1625 / 10000, 1625 / 10000)"
    by (simp add: load_and_def load_examples get_pixel_sizes_zyx_def example_pyramid_pixel_sizes
        getitem_def)
  have d: "load_and coarsening_xy global_key_attrs = Inr (Some 2)"
    by (simp add: load_and_def load_examples example_pyramid_coarsening)
  have e: "load_and pixel_sizes_zyx global_field_attrs = Inl global_transformations_error"
    by (simp add: load_and_def load_examples)
  have f: "extract_zyx_pixel_sizes global_transformation 0 =
      Inl (NotImplementedError
        ''global coordinateTransformations at the multiscales level are not currently supported'')"
    by (simp add: extract_zyx_pixel_sizes_def global_transformation_def getitem_def)
  from a b c d e f load_examples(1,2) show ?thesis by simp
qed

section \<open>The scale transformation of a dataset\<close>

text \<open>
  Claim C6.  The claim holds for \<open>scale_transformation\<close> of \<^verbatim>\<open>lib_ngff.py\<close> (proved
  after this theorem), but the second extraction of the scale of a level,
  the loop of \<open>extract_zyx_pixel_sizes\<close> in \<^verbatim>\<open>lib_zattrs_utils.py\<close>, does not fail on a dataset
  with two scale transformations: it returns the pixel sizes of the first one, where
  \<open>scale_transformation\<close> raises \<^verbatim>\<open>ValueError\<close> for the same dataset.
\<close>

theorem extract_zyx_pixel_sizes_takes_first_scale:
  "length (filter (\<lambda>t. ttype t = ''scale'') (CoordinateTransformations two_scales_dataset)) = 2 \<and>
   extract_zyx_pixel_sizes two_scales_zattrs 0 = Inr [1, 1625 / 10000, 1625 / 10000] \<and>
   scale_transformation two_scales_dataset =
     Inl (ValueError ''More than one scale transformation in dataset.'')"
  by (simp add: two_scales_zattrs_def two_scales_dataset_def extract_zyx_pixel_sizes_def getitem_def
      scale_transformation_def min_pixel_size_def)

lemma ttype_scale_iff: "ttype t = ''scale'' \<longleftrightarrow> (\<exists>s. t = Scale s)"
  by (cases t) simp_all

text \<open>
  \<open>scale_transformation\<close> fails when the dataset has no transformation of type scale and when
  it has more than one; with exactly one it returns that transformation, the only one of
  type scale in the list.  A translation anywhere in the list does not change the result.
\<close>

theorem scale_transformation_unique:
  "(let n = length (filter (\<lambda>t. ttype t = ''scale'') (CoordinateTransformations ds)) in
     (n = 0 \<longrightarrow> (\<exists>msg. scale_transformation ds = Inl (ValueError msg))) \<and>
     (1 < n \<longrightarrow> (\<exists>msg. scale_transformation ds = Inl (ValueError msg))) \<and>
     (n = 1 \<longrightarrow> (\<exists>s. scale_transformation ds = Inr (Scale s) \<and>
                     Scale s \<in> set (CoordinateTransformations ds) \<and>
                     (\<forall>t \<in> set (CoordinateTransformations ds). ttype t = ''scale'' \<longrightarrow> t = Scale s)))) \<and>
   scale_transformation (ds\<lparr>CoordinateTransformations := before @ Translation v # after\<rparr>) =
     scale_transformation (ds\<lparr>CoordinateTransformations := before @ after\<rparr>)"
proof -
  let ?sc = "filter (\<lambda>t. ttype t = ''scale'') (CoordinateTransformations ds)"
  have one: "length ?sc = 1 \<Longrightarrow> \<exists>s. scale_transformation ds = Inr (Scale s) \<and>
        Scale s \<in> set (CoordinateTransformations ds) \<and>
        (\<forall>t \<in> set (CoordinateTransformations ds). ttype t = ''scale'' \<longrightarrow> t = Scale s)"
  proof -
    assume len: "length ?sc = 1"
    then obtain t where t: "?sc = [t]" by (cases ?sc) simp_all
    have "t \<in> set ?sc" unfolding t by simp
    then have mem: "t \<in> set (CoordinateTransformations ds)" and ty: "ttype t = ''scale''"
      by simp_all
    from ty obtain s where s: "t = Scale s" unfolding ttype_scale_iff by blast
    have res: "scale_transformation ds = Inr t"
      unfolding scale_transformation_def Let_def t by simp
    have uniq: "u = t" if "u \<in> set (CoordinateTransformations ds)" "ttype u = ''scale''" for u
    proof -
      from that have "u \<in> set ?sc" by simp
      then show ?thesis unfolding t by simp
    qed
    from res mem uniq show ?thesis unfolding s by blast
  qed
  have zero: "length ?sc = 0 \<Longrightarrow> \<exists>msg. scale_transformation ds = Inl (ValueError msg)"
    by (simp add: scale_transformation_def)
  have many: "1 < length ?sc \<Longrightarrow> \<exists>msg. scale_transformation ds = Inl (ValueError msg)"
    by (simp add: scale_transformation_def Let_def)
  have tr: "scale_transformation (ds\<lparr>CoordinateTransformations := before @ Translation v # after\<rparr>) =
      scale_transformation (ds\<lparr>CoordinateTransformations := before @ after\<rparr>)"
    by (simp add: scale_transformation_def)
  from zero many one tr show ?thesis
    unfolding Let_def by blast
qed

theorem scale_transformation_unique_witness:
  "length (filter (\<lambda>t. ttype t = ''scale'') (CoordinateTransformations two_scales_dataset)) = 2 \<and>
   (\<exists>msg. scale_transformation two_scales_dataset = Inl (ValueError msg)) \<and>
   length (filter (\<lambda>t. ttype t = ''scale'')
     (CoordinateTransformations (two_scales_dataset\<lparr>CoordinateTransformations := [Scale [2, 2, 2]]\<rparr>))) = 1 \<and>
   (\<exists>s. scale_transformation (two_scales_dataset\<lparr>CoordinateTransformations := [Scale [2, 2, 2]]\<rparr>) =
      Inr (Scale s)) \<and>
   length (filter (\<lambda>t. ttype t = ''scale'')
     (CoordinateTransformations (two_scales_dataset\<lparr>CoordinateTransformations := []\<rparr>))) = 0 \<and>
   (\<exists>msg. scale_transformation (two_scales_dataset\<lparr>CoordinateTransformations := []\<rparr>) =
      Inl (ValueError msg))"
proof -
  let ?one = "two_scales_dataset\<lparr>CoordinateTransformations := [Scale [2, 2, 2]]\<rparr>"
  let ?none = "two_scales_dataset\<lparr>CoordinateTransformations := []\<rparr>"
  have n2: "length (filter (\<lambda>t. ttype t = ''scale'') (CoordinateTransformations two_scales_dataset)) = 2"
    by (simp add: two_scales_dataset_def)
  have n1: "length (filter (\<lambda>t. ttype t = ''scale'') (CoordinateTransformations ?one)) = 1"
    by simp
  have n0: "length (filter (\<lambda>t. ttype t = ''scale'') (CoordinateTransformations ?none)) = 0"
    by simp
  from scale_transformation_unique [of two_scales_dataset "[]" "[]" "[]"] n2
  have a: "\<exists>msg. scale_transformation two_scales_dataset = Inl (ValueError msg)"
    unfolding Let_def by simp
  from scale_transformation_unique [of ?one "[]" "[]" "[]"] n1
  have b: "\<exists>s. scale_transformation ?one = Inr (Scale s)"
    unfolding Let_def by blast
  from scale_transformation_unique [of ?none "[]" "[]" "[]"] n0
  have c: "\<exists>msg. scale_transformation ?none = Inl (ValueError msg)"
    unfolding Let_def by blast
  from n2 a n1 b n0 c show ?thesis by blast
qed

section \<open>The floor on pixel sizes\<close>

text \<open>
  Claim C7, as stated, fails on \<open>pixel_sizes_zyx\<close>: only the scale components at the
  positions of the z, y and x axes are compared with \<^verbatim>\<open>1e-9\<close>.  Here the scale of the only
  level has the channel component 0, and the pixel sizes are returned.
\<close>

theorem channel_scale_not_checked:
  "scale_transformation (hd (ms_datasets (hd (multiscales channel_scale_zero)))) =
     Inr (Scale [0, 1, 1625 / 10000, 1625 / 10000]) \<and>
   (0::real) < min_pixel_size \<and>
   pixel_sizes_zyx channel_scale_zero = Inr [(1, 1625 / 10000, 1625 / 10000)] \<and>
   get_pixel_sizes_zyx channel_scale_zero 0 = Inr (1, 1625 / 10000, 1625 / 10000)"
  by (simp add: channel_scale_zero_def pixel_sizes_zyx_def axes_def datasets_def multiscale_def
      getitem_def level_pixel_sizes_def scale_transformation_def get_pixel_sizes_zyx_def
      min_pixel_size_def)

lemma level_pixel_sizes_small:
  assumes "scale_transformation d = Inr (Scale s)"
    and "i = xi \<or> i = yi \<or> zi = Some i" and "i < length s" and "s ! i < min_pixel_size"
  shows "isl (level_pixel_sizes xi yi zi d)"
  using assms unfolding level_pixel_sizes_def getitem_def
  by (auto split: option.splits simp: min_less_iff_disj)

lemma pixel_sizes_loop_raises:
  "d \<in> set ds \<Longrightarrow> isl (level_pixel_sizes xi yi zi d) \<Longrightarrow> isl (pixel_sizes_loop xi yi zi ds)"
  by (induction ds) (auto split: sum.splits simp: isl_def)

lemma level_pixel_sizes_too_small:
  assumes "level_pixel_sizes xi yi zi d = Inl pixel_sizes_too_small_error"
  shows "\<exists>s i. scale_transformation d = Inr (Scale s) \<and> (i = xi \<or> i = yi \<or> zi = Some i) \<and>
           i < length s \<and> s ! i < min_pixel_size"
proof -
  have e: "ValueError ''Missing scale transformation in dataset.'' \<noteq> pixel_sizes_too_small_error"
    "ValueError ''More than one scale transformation in dataset.'' \<noteq> pixel_sizes_too_small_error"
    "IndexError \<noteq> pixel_sizes_too_small_error" "AttributeError \<noteq> pixel_sizes_too_small_error"
    by (simp_all add: pixel_sizes_too_small_error_def)
  have one: "\<not> 1 < min_pixel_size" by (simp add: min_pixel_size_def)
  show ?thesis
  proof (cases "scale_transformation d")
    case (Inl err)
    then have "err = ValueError ''Missing scale transformation in dataset.'' \<or>
        err = ValueError ''More than one scale transformation in dataset.''"
      unfolding scale_transformation_def Let_def by (auto split: if_splits)
    with Inl e assms show ?thesis by (auto simp: level_pixel_sizes_def)
  next
    case (Inr t)
    show ?thesis
    proof (cases t)
      case (Translation v)
      with Inr e assms show ?thesis by (simp add: level_pixel_sizes_def)
    next
      case (Scale s)
      with Inr assms e one show ?thesis
        unfolding level_pixel_sizes_def getitem_def
        by (auto split: option.splits if_splits simp: min_less_iff_disj)
    qed
  qed
qed

lemma pixel_sizes_loop_too_small:
  "pixel_sizes_loop xi yi zi ds = Inl pixel_sizes_too_small_error \<Longrightarrow>
     \<exists>level < length ds. level_pixel_sizes xi yi zi (ds ! level) = Inl pixel_sizes_too_small_error"
proof (induction ds)
  case Nil
  then show ?case by simp
next
  case (Cons d ds)
  show ?case
  proof (cases "level_pixel_sizes xi yi zi d")
    case (Inl e)
    with Cons.prems have "level_pixel_sizes xi yi zi ((d # ds) ! 0) = Inl pixel_sizes_too_small_error"
      by simp
    then show ?thesis by (intro exI [of _ 0]) simp
  next
    case (Inr p)
    with Cons.prems have "pixel_sizes_loop xi yi zi ds = Inl pixel_sizes_too_small_error"
      by (simp split: sum.splits)
    from Cons.IH [OF this] obtain level where "level < length ds"
      "level_pixel_sizes xi yi zi (ds ! level) = Inl pixel_sizes_too_small_error" by blast
    then show ?thesis by (intro exI [of _ "Suc level"]) simp
  qed
qed

lemma pixel_sizes_zyx_too_small:
  assumes "axes m = Inr axs" and "datasets m = Inr ds"
    and "pixel_sizes_zyx m = Inl pixel_sizes_too_small_error"
  shows "\<exists>level s i. level < length ds \<and> scale_transformation (ds ! level) = Inr (Scale s) \<and>
           (list_index axs ''x'' = Some i \<or> list_index axs ''y'' = Some i \<or>
            list_index axs ''z'' = Some i) \<and>
           i < length s \<and> s ! i < min_pixel_size"
proof -
  have e: "ValueError ''x is not in list'' \<noteq> pixel_sizes_too_small_error"
    "ValueError ''y is not in list'' \<noteq> pixel_sizes_too_small_error"
    by (simp_all add: pixel_sizes_too_small_error_def)
  from assms e obtain xi yi where x: "list_index axs ''x'' = Some xi"
    and y: "list_index axs ''y'' = Some yi"
    and l: "pixel_sizes_loop xi yi (list_index axs ''z'') ds = Inl pixel_sizes_too_small_error"
    by (auto simp: pixel_sizes_zyx_def split: option.splits)
  from pixel_sizes_loop_too_small [OF l] obtain level where lv: "level < length ds"
    and "level_pixel_sizes xi yi (list_index axs ''z'') (ds ! level) = Inl pixel_sizes_too_small_error"
    by blast
  from level_pixel_sizes_too_small [OF this(2)] obtain s i where
    "scale_transformation (ds ! level) = Inr (Scale s)"
    "i = xi \<or> i = yi \<or> list_index axs ''z'' = Some i" "i < length s" "s ! i < min_pixel_size"
    by blast
  with lv x y show ?thesis by blast
qed

lemma get_pixel_sizes_zyx_too_small:
  "get_pixel_sizes_zyx m lvl = Inl pixel_sizes_too_small_error \<Longrightarrow>
     pixel_sizes_zyx m = Inl pixel_sizes_too_small_error"
  by (auto simp: get_pixel_sizes_zyx_def getitem_def pixel_sizes_too_small_error_def
      split: sum.splits if_splits)

text \<open>
  Claim C7, amended.  For metadata with one multiscale (\<open>axes\<close> and \<open>datasets\<close> return):
  when at some level the component of the scale at the position of the x, y or z axis is
  smaller than \<^verbatim>\<open>1e-9\<close>, \<open>pixel_sizes_zyx\<close> raises, and with it \<open>get_pixel_sizes_zyx\<close> at every
  level; when at every level the components at the positions of the x, y and z axes are at
  least \<^verbatim>\<open>1e-9\<close>, neither ends in the error of this check.  The components of other axes
  play no part.
\<close>

theorem pixel_sizes_floor_on_zyx:
  assumes "axes m = Inr axs" and "datasets m = Inr ds"
  shows "(level < length ds \<and> scale_transformation (ds ! level) = Inr (Scale s) \<and>
          (list_index axs ''x'' = Some i \<or> list_index axs ''y'' = Some i \<or>
           list_index axs ''z'' = Some i) \<and>
          i < length s \<and> s ! i < min_pixel_size
            \<longrightarrow> isl (pixel_sizes_zyx m) \<and> isl (get_pixel_sizes_zyx m lvl)) \<and>
         ((\<forall>level' s' j. level' < length ds \<and>
              scale_transformation (ds ! level') = Inr (Scale s') \<and>
              (list_index axs ''x'' = Some j \<or> list_index axs ''y'' = Some j \<or>
               list_index axs ''z'' = Some j) \<and> j < length s'
                \<longrightarrow> min_pixel_size \<le> s' ! j)
            \<longrightarrow> pixel_sizes_zyx m \<noteq> Inl pixel_sizes_too_small_error \<and>
                get_pixel_sizes_zyx m lvl \<noteq> Inl pixel_sizes_too_small_error)"
proof (intro conjI impI)
  assume h: "level < length ds \<and> scale_transformation (ds ! level) = Inr (Scale s) \<and>
      (list_index axs ''x'' = Some i \<or> list_index axs ''y'' = Some i \<or>
       list_index axs ''z'' = Some i) \<and> i < length s \<and> s ! i < min_pixel_size"
  then have mem: "ds ! level \<in> set ds" by simp
  have raises: "isl (pixel_sizes_zyx m)"
  proof (cases "list_index axs ''x''")
    case None
    with assms show ?thesis by (simp add: pixel_sizes_zyx_def)
  next
    case (Some xi)
    note x = this
    show ?thesis
    proof (cases "list_index axs ''y''")
      case None
      with assms x show ?thesis by (simp add: pixel_sizes_zyx_def)
    next
      case (Some yi)
      from h x Some have "i = xi \<or> i = yi \<or> list_index axs ''z'' = Some i" by auto
      with h have "isl (level_pixel_sizes xi yi (list_index axs ''z'') (ds ! level))"
        by (intro level_pixel_sizes_small [where s = s and i = i]) simp_all
      from pixel_sizes_loop_raises [OF mem this] assms x Some show ?thesis
        by (simp add: pixel_sizes_zyx_def)
    qed
  qed
  then show "isl (pixel_sizes_zyx m)" .
  from raises show "isl (get_pixel_sizes_zyx m lvl)"
    by (cases "pixel_sizes_zyx m") (simp_all add: get_pixel_sizes_zyx_def)
next
  assume big: "\<forall>level' s' j. level' < length ds \<and>
      scale_transformation (ds ! level') = Inr (Scale s') \<and>
      (list_index axs ''x'' = Some j \<or> list_index axs ''y'' = Some j \<or>
       list_index axs ''z'' = Some j) \<and> j < length s'
        \<longrightarrow> min_pixel_size \<le> s' ! j"
  show ok: "pixel_sizes_zyx m \<noteq> Inl pixel_sizes_too_small_error"
  proof
    assume "pixel_sizes_zyx m = Inl pixel_sizes_too_small_error"
    from pixel_sizes_zyx_too_small [OF assms this] obtain level' s' j where
      "level' < length ds" "scale_transformation (ds ! level') = Inr (Scale s')"
      "list_index axs ''x'' = Some j \<or> list_index axs ''y'' = Some j \<or>
       list_index axs ''z'' = Some j" "j < length s'" and small: "s' ! j < min_pixel_size"
      by blast
    with big have "min_pixel_size \<le> s' ! j" by blast
    with small show False by simp
  qed
  show "get_pixel_sizes_zyx m lvl \<noteq> Inl pixel_sizes_too_small_error"
    using ok get_pixel_sizes_zyx_too_small by blast
qed

theorem pixel_sizes_floor_on_zyx_witness:
  "axes tiny_pixels = Inr [''c'', ''z'', ''y'', ''x''] \<and>
   scale_transformation (hd (ms_datasets (hd (multiscales tiny_pixels)))) =
     Inr (Scale [1, 1, 1 / 10 ^ 10, 1625 / 10000]) \<and>
   list_index [''c'', ''z'', ''y'', ''x''] ''y'' = Some 2 \<and>
   [1, 1, 1 / 10 ^ 10, 1625 / 10000] ! 2 < min_pixel_size \<and>
   isl (pixel_sizes_zyx tiny_pixels) \<and>
   isl (get_pixel_sizes_zyx tiny_pixels 0) \<and>
   axes channel_scale_zero = Inr [''c'', ''z'', ''y'', ''x''] \<and>
   pixel_sizes_zyx channel_scale_zero \<noteq> Inl pixel_sizes_too_small_error \<and>
   get_pixel_sizes_zyx channel_scale_zero 0 \<noteq> Inl pixel_sizes_too_small_error"
proof -
  let ?d = "\<lparr>path = ''0'', CoordinateTransformations = [Scale [1, 1, 1 / 10 ^ 10, 1625 / 10000]]\<rparr>"
  let ?s = "[1, 1, 1 / 10 ^ 10, 1625 / 10000] :: real list"
  have ax: "axes tiny_pixels = Inr [''c'', ''z'', ''y'', ''x'']"
    by (simp add: axes_def multiscale_def getitem_def tiny_pixels_def example_axes_def)
  have ds: "datasets tiny_pixels = Inr [?d]"
    by (simp add: datasets_def multiscale_def getitem_def tiny_pixels_def)
  have st: "scale_transformation ?d = Inr (Scale ?s)"
    by (simp add: scale_transformation_def)
  have ix: "list_index [''c'', ''z'', ''y'', ''x''] ''y'' = Some 2" by simp
  have small: "?s ! 2 < min_pixel_size" by (simp add: min_pixel_size_def)
  have hyp: "0 < length [?d] \<and> scale_transformation ([?d] ! 0) = Inr (Scale ?s) \<and>
      (list_index [''c'', ''z'', ''y'', ''x''] ''x'' = Some 2 \<or>
       list_index [''c'', ''z'', ''y'', ''x''] ''y'' = Some 2 \<or>
       list_index [''c'', ''z'', ''y'', ''x''] ''z'' = Some 2) \<and>
      2 < length ?s \<and> ?s ! 2 < min_pixel_size"
    using st small by simp
  from pixel_sizes_floor_on_zyx [OF ax ds, of 0 ?s 2 0] hyp
  have r: "isl (pixel_sizes_zyx tiny_pixels)" "isl (get_pixel_sizes_zyx tiny_pixels 0)"
    by blast+
  let ?e = "\<lparr>path = ''0'', CoordinateTransformations = [Scale [0, 1, 1625 / 10000, 1625 / 10000]]\<rparr>"
  let ?t = "[0, 1, 1625 / 10000, 1625 / 10000] :: real list"
  have ax2: "axes channel_scale_zero = Inr [''c'', ''z'', ''y'', ''x'']"
    by (simp add: axes_def multiscale_def getitem_def channel_scale_zero_def)
  have ds2: "datasets channel_scale_zero = Inr [?e]"
    by (simp add: datasets_def multiscale_def getitem_def channel_scale_zero_def)
  have st2: "scale_transformation ?e = Inr (Scale ?t)"
    by (simp add: scale_transformation_def)
  have big: "\<forall>level' s' j. level' < length [?e] \<and>
      scale_transformation ([?e] ! level') = Inr (Scale s') \<and>
      (list_index [''c'', ''z'', ''y'', ''x''] ''x'' = Some j \<or>
       list_index [''c'', ''z'', ''y'', ''x''] ''y'' = Some j \<or>
       list_index [''c'', ''z'', ''y'', ''x''] ''z'' = Some j) \<and> j < length s'
        \<longrightarrow> min_pixel_size \<le> s' ! j"
  proof (intro allI impI, elim conjE)
    fix level' s' j
    assume "level' < length [?e]"
      and s: "scale_transformation ([?e] ! level') = Inr (Scale s')"
      and j: "list_index [''c'', ''z'', ''y'', ''x''] ''x'' = Some j \<or>
        list_index [''c'', ''z'', ''y'', ''x''] ''y'' = Some j \<or>
        list_index [''c'', ''z'', ''y'', ''x''] ''z'' = Some j"
    then have "level' = 0" by simp
    with s st2 have s': "s' = ?t" by simp
    from j have "j = 3 \<or> j = 2 \<or> j = 1" by auto
    then show "min_pixel_size \<le> s' ! j"
      unfolding s' by (auto simp: min_pixel_size_def)
  qed
  from pixel_sizes_floor_on_zyx [OF ax2 ds2, of 0 "[]" 0 0] big
  have r2: "pixel_sizes_zyx channel_scale_zero \<noteq> Inl pixel_sizes_too_small_error"
    "get_pixel_sizes_zyx channel_scale_zero 0 \<noteq> Inl pixel_sizes_too_small_error"
    by blast+
  have st': "scale_transformation (hd (ms_datasets (hd (multiscales tiny_pixels)))) = Inr (Scale ?s)"
    by (simp add: tiny_pixels_def scale_transformation_def)
  from ax st' ix small r ax2 r2 show ?thesis by simp
qed

lemma first_scale_filter:
  "first_scale ts = first_scale (filter (\<lambda>t. ttype t = ''scale'') ts)"
  by (induction ts) (auto split: transformation.splits)

lemma Min_less_floor:
  "s \<noteq> [] \<Longrightarrow> (Min (set s) < (b::real)) = (\<exists>v \<in> set s. v < b)"
  by (simp add: Min_less_iff)

text \<open>
  \<open>extract_zyx_pixel_sizes\<close> compares every component of the first scale of the chosen level
  with \<^verbatim>\<open>1e-9\<close>: it raises when one of them is smaller and returns the scale when none is.
\<close>

theorem extract_zyx_pixel_sizes_floor:
  assumes "multiscales zattrs = [ms]" and "ms_CoordinateTransformations ms = None"
    and "level < length (ms_datasets ms)"
    and "filter (\<lambda>t. ttype t = ''scale'')
           (CoordinateTransformations (ms_datasets ms ! level)) = Scale s # others"
  shows "((\<exists>v \<in> set s. v < min_pixel_size) \<longrightarrow>
            extract_zyx_pixel_sizes zattrs level = Inl (Exception ''ERROR: pixel_sizes are'')) \<and>
         (s \<noteq> [] \<and> (\<forall>v \<in> set s. min_pixel_size \<le> v) \<longrightarrow>
            extract_zyx_pixel_sizes zattrs level = Inr s)"
proof -
  have e: "extract_zyx_pixel_sizes zattrs level =
      first_scale (CoordinateTransformations (ms_datasets ms ! level))"
    using assms(1-3) by (simp add: extract_zyx_pixel_sizes_def getitem_def)
  have f: "first_scale (CoordinateTransformations (ms_datasets ms ! level)) =
      first_scale (Scale s # others)"
    using first_scale_filter [of "CoordinateTransformations (ms_datasets ms ! level)"]
    unfolding assms(4) .
  show ?thesis
  proof (cases "s = []")
    case True
    then show ?thesis by simp
  next
    case False
    have "(\<forall>v \<in> set s. min_pixel_size \<le> v) = (\<not> (\<exists>v \<in> set s. v < min_pixel_size))"
      by (auto simp: not_less)
    with False show ?thesis
      unfolding e f by (simp add: Min_less_floor)
  qed
qed

theorem extract_zyx_pixel_sizes_floor_witness:
  "multiscales two_scales_zattrs = [hd (multiscales two_scales_zattrs)] \<and>
   extract_zyx_pixel_sizes two_scales_zattrs 0 = Inr [1, 1625 / 10000, 1625 / 10000] \<and>
   extract_zyx_pixel_sizes tiny_pixels 0 = Inl (Exception ''ERROR: pixel_sizes are'')"
proof -
  let ?ms = "hd (multiscales two_scales_zattrs)"
  let ?s = "[1, 1625 / 10000, 1625 / 10000] :: real list"
  have a: "multiscales two_scales_zattrs = [?ms]" "ms_CoordinateTransformations ?ms = None"
    "0 < length (ms_datasets ?ms)"
    "filter (\<lambda>t. ttype t = ''scale'') (CoordinateTransformations (ms_datasets ?ms ! 0)) =
       Scale ?s # [Scale [2, 2, 2]]"
    by (simp_all add: two_scales_zattrs_def two_scales_dataset_def)
  have big: "?s \<noteq> [] \<and> (\<forall>v \<in> set ?s. min_pixel_size \<le> v)"
    by (simp add: min_pixel_size_def)
  from extract_zyx_pixel_sizes_floor [OF a] big
  have r1: "extract_zyx_pixel_sizes two_scales_zattrs 0 = Inr ?s" by blast
  let ?mt = "hd (multiscales tiny_pixels)"
  let ?t = "[1, 1, 1 / 10 ^ 10, 1625 / 10000] :: real list"
  have b: "multiscales tiny_pixels = [?mt]" "ms_CoordinateTransformations ?mt = None"
    "0 < length (ms_datasets ?mt)"
    "filter (\<lambda>t. ttype t = ''scale'') (CoordinateTransformations (ms_datasets ?mt ! 0)) =
       Scale ?t # []"
    by (simp_all add: tiny_pixels_def)
  have small: "\<exists>v \<in> set ?t. v < min_pixel_size"
    by (simp add: min_pixel_size_def)
  from extract_zyx_pixel_sizes_floor [OF b] small
  have r2: "extract_zyx_pixel_sizes tiny_pixels 0 = Inl (Exception ''ERROR: pixel_sizes are'')"
    by blast
  from a(1) r1 r2 show ?thesis by simp
qed

section \<open>Rescaling at the reference level 0\<close>

lemma rescaled_zyx_level0:
  "(case t of Scale s \<Rightarrow> length s = 3 | Translation v \<Rightarrow> True) \<Longrightarrow> rescaled_zyx c 0 t = t"
proof (cases t)
  case (Scale s)
  assume "case t of Scale s \<Rightarrow> length s = 3 | Translation v \<Rightarrow> True"
  with Scale have "length s = 3" by simp
  then obtain z y x where "s = [z, y, x]"
    by (cases s; cases "tl s"; cases "tl (tl s)") auto
  with Scale show ?thesis by simp
next
  case (Translation v)
  then show ?thesis by simp
qed

text \<open>
  On datasets whose scales all have the three components (Z, Y, X), rescaling at the
  reference level 0 returns the datasets unchanged.
\<close>

theorem rescale_datasets_zyx_level0:
  assumes "list_all zyx_scales dss"
  shows "rescale_datasets dss c 0 = Inr dss"
proof -
  have "map (\<lambda>ds. ds\<lparr>CoordinateTransformations :=
      map (rescaled_zyx c 0) (CoordinateTransformations ds)\<rparr>) dss = dss"
    using assms
  proof (induction dss)
    case Nil
    then show ?case by simp
  next
    case (Cons ds dss)
    then have "list_all (\<lambda>t. case t of Scale s \<Rightarrow> length s = 3 | Translation v \<Rightarrow> True)
        (CoordinateTransformations ds)" by (simp add: zyx_scales_def)
    then have "map (rescaled_zyx c 0) (CoordinateTransformations ds) = CoordinateTransformations ds"
      by (induction "CoordinateTransformations ds") (simp_all add: rescaled_zyx_level0 list_all_iff map_idI)
    with Cons show ?case by simp
  qed
  with rescale_datasets_zyx_map [OF assms, of c 0] show ?thesis by simp
qed

theorem rescale_datasets_zyx_level0_witness:
  "list_all zyx_scales [zyx_level0] \<and> rescale_datasets [zyx_level0] 2 0 = Inr [zyx_level0]"
proof -
  have h: "list_all zyx_scales [zyx_level0]"
    by (simp add: zyx_scales_def zyx_level0_def)
  from rescale_datasets_zyx_level0 [OF h, of 2] h show ?thesis by simp
qed

text \<open>
  Claim C8.  At the reference level 0 the factor is 1, but the new scale is still built
  from the entries 0, 1 and 2 only: the level-0 scale \<open>[c, z, y, x]\<close> of a CZYX image comes
  back without its X entry, so the result is not the input.
\<close>

theorem rescale_datasets_level0_czyx_not_identity:
  "rescale_datasets [czyx_level0] 2 0 =
     Inr [\<lparr>path = ''0'', CoordinateTransformations = [Scale [1, 1, 1625 / 10000]]\<rparr>]
   \<and> rescale_datasets [czyx_level0] 2 0 \<noteq> Inr [czyx_level0]"
  by (simp add: czyx_level0_def rescale_transformation_def)

section \<open>Rescaling twice\<close>










text \<open>The coarsening factor 0 is a value that \<open>coarsening_xy\<close> returns.\<close>

lemma coarsening_xy_can_be_zero: "coarsening_xy inverted_pyramid = Inr (Some 0)"
  by (simp add: coarsening_xy_def num_levels_def datasets_def multiscale_def getitem_def
      inverted_pyramid_def pixel_sizes_zyx_def axes_def example_axes_def level_pixel_sizes_def
      scale_transformation_def min_pixel_size_def Let_def py_round_def)




text \<open>
  Claim C10.  With a single multiscale that has exactly one dataset, the loop of
  \<open>coarsening_xy\<close> over \<^verbatim>\<open>range(1, 1)\<close> does not run and the initial value \<^verbatim>\<open>None\<close> of
  \<^verbatim>\<open>current_ratio\<close> is returned: neither an integer nor an error.
\<close>

theorem coarsening_xy_single_level:
  assumes "multiscale m = Inr ms" and "length (ms_datasets ms) = 1"
  shows "coarsening_xy m = Inr None"
  using assms by (simp add: coarsening_xy_def num_levels_def datasets_def)

theorem coarsening_xy_single_level_witness:
  "multiscale single_level = Inr (hd (multiscales single_level)) \<and>
   length (ms_datasets (hd (multiscales single_level))) = 1 \<and>
   coarsening_xy single_level = Inr None"
proof -
  have a: "multiscale single_level = Inr (hd (multiscales single_level))"
    by (simp add: single_level_def multiscale_def getitem_def)
  have b: "length (ms_datasets (hd (multiscales single_level))) = 1"
    by (simp add: single_level_def)
  from coarsening_xy_single_level [OF a b] a b show ?thesis by simp
qed

end
